theory Spec2Isabelle
  imports Complex_Main "HOL-Library.Signed_Division" "HOL-Library.Word"
begin

section \<open>JavaScript values\<close>

text \<open>
  The page works on loosely typed JSON: the bodies of the two HTTP responses are whatever
  \<^verbatim>\<open>response.json()\<close> yields. \<open>jv\<close> is that value space. \<open>JUndefined\<close> is what a
  read of a missing property gives; it never occurs inside a parsed body. An object is
  the list of its own properties in enumeration order, with distinct keys. Numbers are
  restricted to integers: no function of the page does arithmetic on a response number,
  only truthiness and conversion to text are ever asked of one.
\<close>

datatype jv =
    JUndefined
  | JNull
  | JBool bool
  | JNum int
  | JStr string
  | JArr "jv list"
  | JObj "(string \<times> jv) list"

text \<open>Thrown values. Everything the page throws or catches is an \<^verbatim>\<open>Error\<close> instance
  carrying a message; \<open>TypeError\<close> is what the engine raises on a property read of
  \<^verbatim>\<open>null\<close> or \<^verbatim>\<open>undefined\<close> (its message is the engine's own wording; V8's is used
  below), \<open>SyntaxError\<close> what a failed body parse raises.\<close>

datatype js_exn = Error string | TypeError string | SyntaxError string

fun message :: "js_exn \<Rightarrow> string" where
  "message (Error m) = m"
| "message (TypeError m) = m"
| "message (SyntaxError m) = m"

definition bindE :: "js_exn + 'a \<Rightarrow> ('a \<Rightarrow> js_exn + 'b) \<Rightarrow> js_exn + 'b" where
  "bindE m f = (case m of Inl e \<Rightarrow> Inl e | Inr v \<Rightarrow> f v)"

text \<open>Short-circuit \<^verbatim>\<open>a || b\<close> on conditions whose evaluation may throw: \<open>b\<close> is looked
  at only when \<open>a\<close> evaluated to false.\<close>

definition orE :: "js_exn + bool \<Rightarrow> js_exn + bool \<Rightarrow> js_exn + bool" where
  "orE a b = (case a of Inl e \<Rightarrow> Inl e | Inr c \<Rightarrow> if c then Inr True else b)"

fun mapE :: "('a \<Rightarrow> js_exn + 'b) \<Rightarrow> 'a list \<Rightarrow> js_exn + 'b list" where
  "mapE f [] = Inr []"
| "mapE f (x # xs) = bindE (f x) (\<lambda>y. bindE (mapE f xs) (\<lambda>ys. Inr (y # ys)))"

fun truthy :: "jv \<Rightarrow> bool" where
  "truthy JUndefined = False"
| "truthy JNull = False"
| "truthy (JBool b) = b"
| "truthy (JNum n) = (n \<noteq> 0)"
| "truthy (JStr s) = (s \<noteq> [])"
| "truthy (JArr xs) = True"
| "truthy (JObj kvs) = True"

fun typeof :: "jv \<Rightarrow> string" where
  "typeof JUndefined = ''undefined''"
| "typeof JNull = ''object''"
| "typeof (JBool b) = ''boolean''"
| "typeof (JNum n) = ''number''"
| "typeof (JStr s) = ''string''"
| "typeof (JArr xs) = ''object''"
| "typeof (JObj kvs) = ''object''"

fun Array_isArray :: "jv \<Rightarrow> bool" where
  "Array_isArray (JArr xs) = True"
| "Array_isArray v = False"

text \<open>Property read \<^verbatim>\<open>v.k\<close>, for the property names the page reads (\<^verbatim>\<open>url\<close>,
  \<^verbatim>\<open>data\<close>, \<^verbatim>\<open>extracted_tables\<close>, \<^verbatim>\<open>columns\<close>, \<^verbatim>\<open>rows\<close>, \<^verbatim>\<open>metadata\<close>,
  \<^verbatim>\<open>detail\<close>, \<^verbatim>\<open>msg\<close>, \<^verbatim>\<open>message\<close>): none of them is a built-in property of
  arrays, strings, numbers or booleans, so on those the read gives \<^verbatim>\<open>undefined\<close>; on
  \<^verbatim>\<open>null\<close> and \<^verbatim>\<open>undefined\<close> it throws.\<close>

fun get :: "jv \<Rightarrow> string \<Rightarrow> js_exn + jv" where
  "get JUndefined k =
     Inl (TypeError (''Cannot read properties of undefined (reading '' @ [CHR 0x27] @ k
                       @ [CHR 0x27] @ '')''))"
| "get JNull k =
     Inl (TypeError (''Cannot read properties of null (reading '' @ [CHR 0x27] @ k
                       @ [CHR 0x27] @ '')''))"
| "get (JObj kvs) k = Inr (case map_of kvs k of None \<Rightarrow> JUndefined | Some v \<Rightarrow> v)"
| "get v k = Inr JUndefined"

text \<open>Optional chaining \<^verbatim>\<open>v?.k\<close>: \<^verbatim>\<open>undefined\<close> instead of a throw.\<close>

fun get_opt :: "jv \<Rightarrow> string \<Rightarrow> jv" where
  "get_opt (JObj kvs) k = (case map_of kvs k of None \<Rightarrow> JUndefined | Some v \<Rightarrow> v)"
| "get_opt v k = JUndefined"

text \<open>The operator \<^verbatim>\<open>k in v\<close>; it throws on a primitive.\<close>

fun has_in :: "string \<Rightarrow> jv \<Rightarrow> js_exn + bool" where
  "has_in k (JObj kvs) = Inr (k \<in> set (map fst kvs))"
| "has_in k (JArr xs) = Inr False"
| "has_in k v = Inl (TypeError (''Cannot use in operator to search for '' @ k))"

section \<open>Response Presenter\<close>

record ConvertTable =
  columns :: jv
  rows :: jv

definition extractConvertUrl :: "jv \<Rightarrow> js_exn + string option" where
  "extractConvertUrl response =
     (if \<not> truthy response \<or> typeof response \<noteq> ''object'' then Inr None
      else bindE (get response ''url'') (\<lambda>maybeUrl.
        Inr (case maybeUrl of JStr s \<Rightarrow> Some s | _ \<Rightarrow> None)))"

text \<open>The guard that opens both \<open>extractConvertTables\<close> and \<open>extractConvertMetadata\<close>,
  word for word the same in the two functions: true when the function returns early.\<close>

definition no_data :: "jv \<Rightarrow> js_exn + bool" where
  "no_data response =
     orE (Inr (\<not> truthy response))
    (orE (Inr (typeof response \<noteq> ''object''))
    (orE (bindE (has_in ''data'' response) (\<lambda>b. Inr (\<not> b)))
    (orE (bindE (get response ''data'') (\<lambda>d. Inr (typeof d \<noteq> ''object'')))
         (bindE (get response ''data'') (\<lambda>d. Inr (\<not> truthy d))))))"

text \<open>The callback of \<^verbatim>\<open>tables.map\<close>: \<^verbatim>\<open>null\<close> (\<open>None\<close>) for a malformed entry. The
  \<^verbatim>\<open>filter\<close> that follows keeps the truthy results.\<close>

definition table_of :: "jv \<Rightarrow> js_exn + ConvertTable option" where
  "table_of table =
     bindE
       (orE (Inr (typeof table \<noteq> ''object''))
       (orE (Inr (\<not> truthy table))
       (orE (bindE (get table ''columns'') (\<lambda>c. Inr (\<not> Array_isArray c)))
            (bindE (get table ''rows'') (\<lambda>r. Inr (\<not> Array_isArray r))))))
       (\<lambda>malformed.
          if malformed then Inr None
          else bindE (get table ''columns'') (\<lambda>c.
               bindE (get table ''rows'') (\<lambda>r.
               Inr (Some \<lparr>columns = c, rows = r\<rparr>))))"

definition extractConvertTables :: "jv \<Rightarrow> js_exn + ConvertTable list" where
  "extractConvertTables response =
     bindE (no_data response) (\<lambda>nd.
       if nd then Inr []
       else bindE (get response ''data'') (\<lambda>d.
            bindE (get d ''extracted_tables'') (\<lambda>tables.
              case tables of
                JArr ts \<Rightarrow> bindE (mapE table_of ts) (\<lambda>ms. Inr (List.map_filter id ms))
              | _ \<Rightarrow> Inr [])))"

definition extractConvertMetadata :: "jv \<Rightarrow> js_exn + jv option" where
  "extractConvertMetadata response =
     bindE (no_data response) (\<lambda>nd.
       if nd then Inr None
       else bindE (get response ''data'') (\<lambda>d.
            bindE (get d ''metadata'') (\<lambda>metadata.
              if \<not> truthy metadata \<or> typeof metadata \<noteq> ''object'' then Inr None
              else Inr (Some metadata))))"

text \<open>The presenter's contract in the specification's words: a value is a non-null
  object when \<^verbatim>\<open>typeof\<close> says \<^verbatim>\<open>object\<close> and it is not \<^verbatim>\<open>null\<close> (arrays
  included, as in JavaScript); \<open>field_of\<close> is the named field, absent fields reading as
  \<^verbatim>\<open>undefined\<close>.\<close>

fun non_null_object :: "jv \<Rightarrow> bool" where
  "non_null_object (JObj kvs) = True"
| "non_null_object (JArr xs) = True"
| "non_null_object v = False"

fun field_of :: "jv \<Rightarrow> string \<Rightarrow> jv" where
  "field_of (JObj kvs) k = (case map_of kvs k of None \<Rightarrow> JUndefined | Some v \<Rightarrow> v)"
| "field_of v k = JUndefined"

definition spec_url :: "jv \<Rightarrow> string option" where
  "spec_url response =
     (if non_null_object response
      then (case field_of response ''url'' of JStr s \<Rightarrow> Some s | _ \<Rightarrow> None)
      else None)"

definition spec_metadata :: "jv \<Rightarrow> jv option" where
  "spec_metadata response =
     (if non_null_object response \<and> non_null_object (field_of response ''data'')
         \<and> non_null_object (field_of (field_of response ''data'') ''metadata'')
      then Some (field_of (field_of response ''data'') ''metadata'')
      else None)"

definition spec_well_formed :: "jv \<Rightarrow> bool" where
  "spec_well_formed t =
     (non_null_object t \<and> Array_isArray (field_of t ''columns'')
        \<and> Array_isArray (field_of t ''rows''))"

definition spec_entries :: "jv \<Rightarrow> jv list" where
  "spec_entries response =
     (if non_null_object response \<and> non_null_object (field_of response ''data'')
      then (case field_of (field_of response ''data'') ''extracted_tables'' of
              JArr ts \<Rightarrow> ts | _ \<Rightarrow> [])
      else [])"

definition spec_table :: "jv \<Rightarrow> ConvertTable" where
  "spec_table t = \<lparr>columns = field_of t ''columns'', rows = field_of t ''rows''\<rparr>"

section \<open>Numbers\<close>

text \<open>
  The numbers of the transform are IEEE 754 doubles. A finite double is kept as the
  rational it denotes, next to the two infinities and \<^verbatim>\<open>NaN\<close>; negative zero is
  identified with zero. \<open>binary64 x\<close> is the double nearest to the exact value \<open>x\<close>, ties
  to the even significand, gradual underflow below \<open>2\<^sup>-\<^sup>1\<^sup>0\<^sup>2\<^sup>2\<close> and an infinity from
  \<open>2\<^sup>1\<^sup>0\<^sup>2\<^sup>4\<close> on. Every arithmetic operation returns \<open>binary64\<close> of its exact result.
\<close>

datatype number = Finite rat | PosInfinity | NegInfinity | NaN

function bit_length :: "int \<Rightarrow> nat" where
  "bit_length n = (if n \<le> 0 then 0 else Suc (bit_length (n div 2)))"
  by pat_completeness auto
termination
  by (relation "measure nat") auto

declare bit_length.simps [simp del]

definition pow2 :: "int \<Rightarrow> rat" where
  "pow2 k = (if 0 \<le> k then 2 ^ nat k else 1 / 2 ^ nat (- k))"

text \<open>The binary exponent of a non-zero \<open>x\<close>: the \<open>e\<close> with \<open>2\<^sup>e \<le> \<bar>x\<bar> < 2\<^sup>e\<^sup>+\<^sup>1\<close>.\<close>

definition exponent2 :: "rat \<Rightarrow> int" where
  "exponent2 x =
     (let a = \<bar>x\<bar> in
      if 1 \<le> a then int (bit_length \<lfloor>a\<rfloor>) - 1
      else (let k = int (bit_length \<lfloor>1 / a\<rfloor>) - 1
            in if a = pow2 (- k) then - k else - k - 1))"

definition round_ties_even :: "rat \<Rightarrow> int" where
  "round_ties_even x =
     (let f = \<lfloor>x\<rfloor>; d = x - of_int f in
      if d < 1 / 2 then f
      else if 1 / 2 < d then f + 1
      else if even f then f else f + 1)"

definition binary64 :: "rat \<Rightarrow> number" where
  "binary64 x =
     (if x = 0 then Finite 0
      else (let e = max (exponent2 x) (- 1022);
                ulp = pow2 (e - 52);
                y = of_int (round_ties_even (x / ulp)) * ulp
            in if pow2 1024 \<le> \<bar>y\<bar> then (if 0 < x then PosInfinity else NegInfinity)
               else Finite y))"

fun js_neg :: "number \<Rightarrow> number" where
  "js_neg (Finite x) = Finite (- x)"
| "js_neg PosInfinity = NegInfinity"
| "js_neg NegInfinity = PosInfinity"
| "js_neg NaN = NaN"

text \<open>The comparison \<^verbatim>\<open>v > 0\<close>.\<close>

fun js_gt0 :: "number \<Rightarrow> bool" where
  "js_gt0 (Finite x) = (0 < x)"
| "js_gt0 PosInfinity = True"
| "js_gt0 v = False"

fun sign_of :: "number \<Rightarrow> int" where
  "sign_of (Finite x) = (if x < 0 then - 1 else if x = 0 then 0 else 1)"
| "sign_of PosInfinity = 1"
| "sign_of NegInfinity = - 1"
| "sign_of NaN = 0"

fun js_mul :: "number \<Rightarrow> number \<Rightarrow> number" where
  "js_mul (Finite x) (Finite y) = binary64 (x * y)"
| "js_mul NaN b = NaN"
| "js_mul a NaN = NaN"
| "js_mul a b =
     (if sign_of a * sign_of b = 0 then NaN
      else if 0 < sign_of a * sign_of b then PosInfinity else NegInfinity)"

fun js_div :: "number \<Rightarrow> number \<Rightarrow> number" where
  "js_div (Finite x) (Finite y) =
     (if y = 0 then (if x = 0 then NaN else if 0 < x then PosInfinity else NegInfinity)
      else binary64 (x / y))"
| "js_div NaN b = NaN"
| "js_div a NaN = NaN"
| "js_div (Finite x) b = Finite 0"
| "js_div a (Finite y) = (if 0 \<le> y then a else js_neg a)"
| "js_div a b = NaN"

text \<open>An \<^verbatim>\<open>unsigned long\<close> attribute read as a number: below \<open>2\<^sup>3\<^sup>2\<close>, exactly a double.\<close>

definition long_value :: "32 word \<Rightarrow> number" where
  "long_value w = Finite (of_nat (unat w))"

text \<open>
  What \<^verbatim>\<open>canvas.width\<close> and \<^verbatim>\<open>canvas.height\<close> hold after an assignment. They are
  \<^verbatim>\<open>unsigned long\<close> attributes: the assigned number is truncated towards zero and taken
  modulo \<open>2\<^sup>3\<^sup>2\<close> (\<^verbatim>\<open>NaN\<close> and the infinities give 0), and a result above \<open>2\<^sup>3\<^sup>1 - 1\<close> is
  replaced by the attribute's default (300 for the width, 150 for the height).
\<close>

definition canvas_size :: "nat \<Rightarrow> number \<Rightarrow> nat" where
  "canvas_size fallback v =
     (case v of
        Finite x \<Rightarrow>
          (let n = (if 0 \<le> x then \<lfloor>x\<rfloor> else \<lceil>x\<rceil>) mod (2 ^ 32 :: int)
           in if n \<le> 2147483647 then nat n else fallback)
      | _ \<Rightarrow> 0)"

section \<open>Conversion to text\<close>

text \<open>
  \<open>Number_toString\<close> is the text JavaScript gives an integer (template literals,
  \<^verbatim>\<open>join\<close>, \<^verbatim>\<open>JSON.stringify\<close>). Below \<open>2\<^sup>5\<^sup>3\<close> in magnitude that is the plain
  decimal text. From there on the engine prints the shortest digits that read back as
  the same double, and from \<open>10\<^sup>2\<^sup>1\<close> on in exponent notation; that text is the engine's
  and is taken as the parameter \<open>large\<close>.
\<close>

fun string_of_nat :: "nat \<Rightarrow> string" where
  "string_of_nat n =
     (if n < 10 then [''0123456789'' ! n]
      else string_of_nat (n div 10) @ [''0123456789'' ! (n mod 10)])"

declare string_of_nat.simps [simp del]

definition Number_toString :: "(int \<Rightarrow> string) \<Rightarrow> int \<Rightarrow> string" where
  "Number_toString large i =
     (if \<bar>i\<bar> < 2 ^ 53
      then (if i < 0 then ''-'' @ string_of_nat (nat (- i)) else string_of_nat (nat i))
      else large i)"

fun intercalate :: "string \<Rightarrow> string list \<Rightarrow> string" where
  "intercalate sep [] = []"
| "intercalate sep [x] = x"
| "intercalate sep (x # y # ys) = x @ sep @ intercalate sep (y # ys)"

text \<open>\<^verbatim>\<open>String(v)\<close>, and \<^verbatim>\<open>Array.prototype.join\<close>, which renders \<^verbatim>\<open>null\<close> and
  \<^verbatim>\<open>undefined\<close> elements as the empty text.\<close>

fun ToString :: "(int \<Rightarrow> string) \<Rightarrow> jv \<Rightarrow> string" where
  "ToString large JUndefined = ''undefined''"
| "ToString large JNull = ''null''"
| "ToString large (JBool b) = (if b then ''true'' else ''false'')"
| "ToString large (JNum n) = Number_toString large n"
| "ToString large (JStr s) = s"
| "ToString large (JArr xs) =
     intercalate '',''
       (map (\<lambda>x. if x = JUndefined \<or> x = JNull then [] else ToString large x) xs)"
| "ToString large (JObj kvs) = ''[object Object]''"

definition Array_join :: "(int \<Rightarrow> string) \<Rightarrow> string \<Rightarrow> jv list \<Rightarrow> string" where
  "Array_join large sep xs =
     intercalate sep
       (map (\<lambda>x. if x = JUndefined \<or> x = JNull then [] else ToString large x) xs)"

text \<open>\<^verbatim>\<open>JSON.stringify\<close>: the quote and the backslash are escaped, control characters
  get their short escape or the four-digit hexadecimal one; a property whose value is
  \<^verbatim>\<open>undefined\<close> is left out, an \<^verbatim>\<open>undefined\<close> array element is written \<^verbatim>\<open>null\<close>,
  and the result for \<^verbatim>\<open>undefined\<close> itself is \<^verbatim>\<open>undefined\<close>.\<close>

definition escape_char :: "char \<Rightarrow> string" where
  "escape_char c =
     (let n = (of_char c :: nat); bs = char_of (92 :: nat) in
      if n = 34 then [bs, char_of (34 :: nat)]
      else if n = 92 then [bs, bs]
      else if n = 8 then [bs, CHR ''b'']
      else if n = 12 then [bs, CHR ''f'']
      else if n = 10 then [bs, CHR ''n'']
      else if n = 13 then [bs, CHR ''r'']
      else if n = 9 then [bs, CHR ''t'']
      else if n < 32 then
        [bs, CHR ''u'', CHR ''0'', CHR ''0'',
         ''0123456789abcdef'' ! (n div 16), ''0123456789abcdef'' ! (n mod 16)]
      else [c])"

definition quote :: "string \<Rightarrow> string" where
  "quote s = [char_of (34 :: nat)] @ concat (map escape_char s) @ [char_of (34 :: nat)]"

fun JSON_serialize :: "(int \<Rightarrow> string) \<Rightarrow> jv \<Rightarrow> string"
  and serialize_elems :: "(int \<Rightarrow> string) \<Rightarrow> jv list \<Rightarrow> string list"
  and serialize_props :: "(int \<Rightarrow> string) \<Rightarrow> (string \<times> jv) list \<Rightarrow> string list" where
  "JSON_serialize large JUndefined = ''null''"
| "JSON_serialize large JNull = ''null''"
| "JSON_serialize large (JBool b) = (if b then ''true'' else ''false'')"
| "JSON_serialize large (JNum n) = Number_toString large n"
| "JSON_serialize large (JStr s) = quote s"
| "JSON_serialize large (JArr xs) =
     ''['' @ intercalate '','' (serialize_elems large xs) @ '']''"
| "JSON_serialize large (JObj kvs) =
     ''{'' @ intercalate '','' (serialize_props large kvs) @ ''}''"
| "serialize_elems large [] = []"
| "serialize_elems large (x # xs) = JSON_serialize large x # serialize_elems large xs"
| "serialize_props large [] = []"
| "serialize_props large ((k, v) # kvs) =
     (if v = JUndefined then serialize_props large kvs
      else (quote k @ '':'' @ JSON_serialize large v) # serialize_props large kvs)"

definition JSON_stringify :: "(int \<Rightarrow> string) \<Rightarrow> jv \<Rightarrow> jv" where
  "JSON_stringify large v =
     (if v = JUndefined then JUndefined else JStr (JSON_serialize large v))"

text \<open>The value of \<^verbatim>\<open>a || b\<close>.\<close>

definition js_or :: "jv \<Rightarrow> jv \<Rightarrow> jv" where
  "js_or a b = (if truthy a then a else b)"

section \<open>Session state and collaborators\<close>

text \<open>The image element of the preview, as far as the transform reads it: its four
  \<^verbatim>\<open>unsigned long\<close> attributes, \<open>displayWidth\<close> and \<open>displayHeight\<close> being its
  \<^verbatim>\<open>width\<close> and \<^verbatim>\<open>height\<close>.\<close>

record HTMLImageElement =
  naturalWidth :: "32 word"
  naturalHeight :: "32 word"
  displayWidth :: "32 word"
  displayHeight :: "32 word"

record Crop =
  crop_unit :: string
  crop_x :: number
  crop_y :: number
  crop_width :: number
  crop_height :: number

text \<open>What the transform leaves on the canvas: its size as the canvas holds it, the
  context's filter, the translation, the rotation (kept in degrees; the source passes the
  angle times \<open>\<pi> / 180\<close>), and the nine arguments of \<^verbatim>\<open>drawImage\<close>.\<close>

record canvas =
  canvas_width :: nat
  canvas_height :: nat
  ctx_filter :: string
  ctx_translate :: "number \<times> number"
  ctx_rotate_degrees :: int
  draw_image :: HTMLImageElement
  draw_source :: "number \<times> number \<times> number \<times> number"
  draw_dest :: "number \<times> number \<times> number \<times> number"

text \<open>A file: its name, its MIME type and its content, which is either the bytes the
  user picked or the raster of a canvas.\<close>

datatype content = Picked string | Rasterized canvas

record File =
  file_name :: string
  file_type :: string
  file_content :: content

record http_response =
  status :: nat
  statusText :: string
  body :: "js_exn + jv"

definition ok :: "http_response \<Rightarrow> bool" where
  "ok response = (200 \<le> status response \<and> status response \<le> 299)"

record upload_request =
  upload_url :: string
  upload_image :: File

record convert_request =
  convert_url :: string
  authorization :: string
  form :: "(string \<times> string) list"

datatype request = Upload upload_request | Convert convert_request

text \<open>The surroundings of the page: the build-time environment variables (absent or a
  text), the two remote services as functions from the request to a rejection or a
  response, the browser's canvas (whether a 2d context is available, and whether
  \<^verbatim>\<open>toBlob\<close> yields a blob, given as the blob's MIME type), and the engine's text
  for integers from \<open>2\<^sup>5\<^sup>3\<close> on.\<close>

record env =
  NEXT_PUBLIC_PARSE_URL :: "string option"
  NEXT_PUBLIC_CONVERT_API_URL :: "string option"
  NEXT_PUBLIC_CONVERT_API_TOKEN :: "string option"
  NEXT_PUBLIC_CONVERT_ENTITY_TYPE :: "string option"
  NEXT_PUBLIC_CONVERT_ENTITY_ID :: "string option"
  NEXT_PUBLIC_CONVERT_CLASS_ID :: "string option"
  NEXT_PUBLIC_CONVERT_SCHOOL_ID :: "string option"
  NEXT_PUBLIC_CONVERT_ACADEMIC_YEAR :: "string option"
  uploadApi :: "upload_request \<Rightarrow> js_exn + http_response"
  convertApi :: "convert_request \<Rightarrow> js_exn + http_response"
  getContext :: bool
  toBlob :: "canvas \<Rightarrow> string \<Rightarrow> string option"
  largeNumberText :: "int \<Rightarrow> string"

text \<open>\<^verbatim>\<open>process.env.X || fallback\<close>: an unset or empty variable gives the fallback.\<close>

definition env_or :: "string option \<Rightarrow> string \<Rightarrow> string" where
  "env_or v fallback = (case v of None \<Rightarrow> fallback | Some t \<Rightarrow> if t = [] then fallback else t)"

definition uploadApiUrl :: "env \<Rightarrow> string" where
  "uploadApiUrl e =
     env_or (NEXT_PUBLIC_PARSE_URL e) ''https://parse.jivalearningsystem.com/api/upload-to-tmpfiles''"

definition convertApiUrl :: "env \<Rightarrow> string" where
  "convertApiUrl e =
     env_or (NEXT_PUBLIC_CONVERT_API_URL e) ''http://localhost:3000/api/v1/growth-card/convert-image''"

definition convertApiToken :: "env \<Rightarrow> string" where
  "convertApiToken e = env_or (NEXT_PUBLIC_CONVERT_API_TOKEN e) []"

definition convertEntityType :: "env \<Rightarrow> string" where
  "convertEntityType e = env_or (NEXT_PUBLIC_CONVERT_ENTITY_TYPE e) ''dkn_report''"

definition convertEntityId :: "env \<Rightarrow> string" where
  "convertEntityId e = env_or (NEXT_PUBLIC_CONVERT_ENTITY_ID e) ''0''"

definition convertClassId :: "env \<Rightarrow> string" where
  "convertClassId e = env_or (NEXT_PUBLIC_CONVERT_CLASS_ID e) ''132''"

definition convertSchoolId :: "env \<Rightarrow> string" where
  "convertSchoolId e = env_or (NEXT_PUBLIC_CONVERT_SCHOOL_ID e) ''215''"

definition convertAcademicYear :: "env \<Rightarrow> string" where
  "convertAcademicYear e = env_or (NEXT_PUBLIC_CONVERT_ACADEMIC_YEAR e) ''2025-2026''"

text \<open>The component's state: the \<^verbatim>\<open>useState\<close> cells and the two refs. \<open>fileInput\<close> is
  the value of the file input when the ref is attached; \<open>imageRef\<close> is the image element
  stored by the preview's \<^verbatim>\<open>onLoad\<close>. \<^verbatim>\<open>null\<close> responses are \<open>JNull\<close>.\<close>

record session =
  selectedImage :: "File option"
  previewUrl :: "string option"
  isSubmitting :: bool
  apiResponse :: jv
  convertResponse :: jv
  error :: "string option"
  fileInput :: "string option"
  imageRef :: "HTMLImageElement option"
  crop :: Crop
  completedCrop :: "Crop option"
  grayscale :: int
  contrast :: int
  rotation :: int

definition buildDefaultCrop :: Crop where
  "buildDefaultCrop =
     \<lparr>crop_unit = ''%'', crop_x = Finite 10, crop_y = Finite 10, crop_width = Finite 80,
      crop_height = Finite 80\<rparr>"

definition initial :: session where
  "initial =
     \<lparr>selectedImage = None, previewUrl = None, isSubmitting = False, apiResponse = JNull,
      convertResponse = JNull, error = None, fileInput = Some [], imageRef = None,
      crop = buildDefaultCrop, completedCrop = None, grayscale = 0, contrast = 100,
      rotation = 0\<rparr>"

definition resetEditorState :: "session \<Rightarrow> session" where
  "resetEditorState s =
     s\<lparr>crop := buildDefaultCrop, completedCrop := None, grayscale := 0, contrast := 100,
       rotation := 0\<rparr>"

text \<open>\<open>objectUrl\<close> is what \<^verbatim>\<open>URL.createObjectURL\<close> returned for the file.\<close>

definition handleImageSelect :: "string \<Rightarrow> File option \<Rightarrow> session \<Rightarrow> session" where
  "handleImageSelect objectUrl picked s =
     (case picked of
        None \<Rightarrow> s
      | Some f \<Rightarrow>
          resetEditorState
            (s\<lparr>selectedImage := Some f, previewUrl := Some objectUrl, apiResponse := JNull,
               convertResponse := JNull, error := None\<rparr>))"

definition onLoad :: "HTMLImageElement \<Rightarrow> session \<Rightarrow> session" where
  "onLoad img s = s\<lparr>imageRef := Some img\<rparr>"

definition handleReset :: "session \<Rightarrow> session" where
  "handleReset s =
     (let s' = resetEditorState
                 (s\<lparr>selectedImage := None, previewUrl := None, apiResponse := JNull,
                    convertResponse := JNull, error := None\<rparr>)
      in case fileInput s' of None \<Rightarrow> s' | Some v \<Rightarrow> s'\<lparr>fileInput := Some []\<rparr>)"

section \<open>Transform Engine\<close>

definition appliedFilter :: "(int \<Rightarrow> string) \<Rightarrow> int \<Rightarrow> int \<Rightarrow> string" where
  "appliedFilter large g c =
     (let grayValue = max 0 (min 100 g)
      in ''grayscale('' @ Number_toString large grayValue @ ''%) contrast(''
           @ Number_toString large c @ ''%)'')"

text \<open>The remainder operator of JavaScript takes the sign of the dividend: \<open>smod\<close>.\<close>

definition normalizedRotation :: "int \<Rightarrow> int" where
  "normalizedRotation r = ((r smod 360) + 360) smod 360"

definition isRotated90or270 :: "int \<Rightarrow> bool" where
  "isRotated90or270 r = (normalizedRotation r = 90 \<or> normalizedRotation r = 270)"

definition scaleX :: "HTMLImageElement \<Rightarrow> number" where
  "scaleX img = js_div (long_value (naturalWidth img)) (long_value (displayWidth img))"

definition scaleY :: "HTMLImageElement \<Rightarrow> number" where
  "scaleY img = js_div (long_value (naturalHeight img)) (long_value (displayHeight img))"

text \<open>The completed crop when it has a positive width and height, the whole displayed
  image otherwise (an object without a unit in the source; the unit is never read).\<close>

definition activeCrop :: "session \<Rightarrow> HTMLImageElement \<Rightarrow> Crop" where
  "activeCrop s img =
     (let whole = \<lparr>crop_unit = ''px'', crop_x = Finite 0, crop_y = Finite 0,
                   crop_width = long_value (displayWidth img),
                   crop_height = long_value (displayHeight img)\<rparr>
      in case completedCrop s of
           None \<Rightarrow> whole
         | Some c \<Rightarrow> if js_gt0 (crop_width c) \<and> js_gt0 (crop_height c) then c else whole)"

definition sourceWidth :: "session \<Rightarrow> HTMLImageElement \<Rightarrow> number" where
  "sourceWidth s img = js_mul (crop_width (activeCrop s img)) (scaleX img)"

definition sourceHeight :: "session \<Rightarrow> HTMLImageElement \<Rightarrow> number" where
  "sourceHeight s img = js_mul (crop_height (activeCrop s img)) (scaleY img)"

text \<open>The canvas after the drawing commands of \<open>processImageForUpload\<close>. The translation
  reads the size back from the canvas, that is, after its conversion to an integer.\<close>

definition drawn :: "env \<Rightarrow> session \<Rightarrow> HTMLImageElement \<Rightarrow> canvas" where
  "drawn e s img =
     (let w = canvas_size 300
                (if isRotated90or270 (rotation s) then sourceHeight s img else sourceWidth s img);
          h = canvas_size 150
                (if isRotated90or270 (rotation s) then sourceWidth s img else sourceHeight s img)
      in \<lparr>canvas_width = w, canvas_height = h,
          ctx_filter = appliedFilter (largeNumberText e) (grayscale s) (contrast s),
          ctx_translate = (js_div (Finite (of_nat w)) (Finite 2),
                           js_div (Finite (of_nat h)) (Finite 2)),
          ctx_rotate_degrees = normalizedRotation (rotation s),
          draw_image = img,
          draw_source = (js_mul (crop_x (activeCrop s img)) (scaleX img),
                         js_mul (crop_y (activeCrop s img)) (scaleY img),
                         sourceWidth s img, sourceHeight s img),
          draw_dest = (js_div (js_neg (sourceWidth s img)) (Finite 2),
                       js_div (js_neg (sourceHeight s img)) (Finite 2),
                       sourceWidth s img, sourceHeight s img)\<rparr>)"

definition processImageForUpload :: "env \<Rightarrow> session \<Rightarrow> js_exn + File" where
  "processImageForUpload e s =
     (case selectedImage s of
        None \<Rightarrow> Inl (Error ''No image selected'')
      | Some selected \<Rightarrow>
         (case imageRef s of
            None \<Rightarrow> Inr selected
          | Some img \<Rightarrow>
              if \<not> getContext e then Inl (Error ''Canvas is not supported in this browser'')
              else
                (case toBlob e (drawn e s img)
                        (if file_type selected \<noteq> [] then file_type selected else ''image/jpeg'') of
                   None \<Rightarrow> Inl (Error ''Failed to process image'')
                 | Some blob_type \<Rightarrow>
                     Inr \<lparr>file_name = file_name selected,
                          file_type = (if file_type selected \<noteq> [] then file_type selected
                                       else if blob_type \<noteq> [] then blob_type
                                       else ''image/jpeg''),
                          file_content = Rasterized (drawn e s img)\<rparr>)))"



section \<open>Upload Orchestrator\<close>

text \<open>The body that \<^verbatim>\<open>response.json().catch(() => ({}))\<close> yields: the empty object
  when the body does not parse.\<close>

definition json_or_empty :: "http_response \<Rightarrow> jv" where
  "json_or_empty response = (case body response of Inl e \<Rightarrow> JObj [] | Inr v \<Rightarrow> v)"

text \<open>The message \<^verbatim>\<open>handleSubmit\<close> derives from a non-2xx upload response. Reading
  \<^verbatim>\<open>detail\<close> of a \<^verbatim>\<open>null\<close> body, or \<^verbatim>\<open>msg\<close> of a \<^verbatim>\<open>null\<close> sub-error, throws.\<close>

definition errorMessage :: "(int \<Rightarrow> string) \<Rightarrow> http_response \<Rightarrow> js_exn + jv" where
  "errorMessage large response =
     (let errorData = json_or_empty response in
      bindE (get errorData ''detail'') (\<lambda>detail.
        if truthy detail then
          (case detail of
             JArr ds \<Rightarrow>
               bindE (mapE (\<lambda>d. bindE (get d ''msg'') (\<lambda>m. Inr (js_or m (JSON_stringify large d)))) ds)
                 (\<lambda>parts. Inr (JStr (Array_join large '', '' parts)))
           | JStr t \<Rightarrow> Inr detail
           | _ \<Rightarrow> Inr (JSON_stringify large detail))
        else Inr (JStr (''API error: '' @ Number_toString large (int (status response)) @ '' ''
                          @ statusText response))))"

text \<open>\<open>submitConvertImage\<close> returns what the \<^verbatim>\<open>async\<close> function settles with, and the
  requests it sent.\<close>

definition submitConvertImage :: "env \<Rightarrow> jv \<Rightarrow> (js_exn + jv) \<times> request list" where
  "submitConvertImage e imageUrl =
     (if convertApiUrl e = [] \<or> convertApiToken e = [] then
        (Inl (Error ''Convert API configuration missing. Check environment variables.''), [])
      else
        (let formData =
               [(''image_url'', ToString (largeNumberText e) imageUrl),
                (''entityType'', convertEntityType e),
                (''entityId'', convertEntityId e),
                (''class_id'', convertClassId e),
                (''school_id'', convertSchoolId e),
                (''academic_year'', convertAcademicYear e)];
             req = \<lparr>convert_url = convertApiUrl e,
                    authorization = ''Bearer '' @ convertApiToken e,
                    form = formData\<rparr>
         in case convertApi e req of
              Inl rejected \<Rightarrow> (Inl rejected, [Convert req])
            | Inr convertResponse' \<Rightarrow>
                if \<not> ok convertResponse' then
                  (let convertError = json_or_empty convertResponse' in
                   (Inl (Error (ToString (largeNumberText e)
                      (js_or (get_opt convertError ''message'')
                      (js_or (get_opt convertError ''detail'')
                             (JStr (''Convert API error: ''
                                    @ Number_toString (largeNumberText e)
                                        (int (status convertResponse')) @ '' ''
                                    @ statusText convertResponse')))))),
                    [Convert req]))
                else (body convertResponse', [Convert req])))"

text \<open>The \<^verbatim>\<open>try\<close> block of \<^verbatim>\<open>handleSubmit\<close>: how it ends (normally or with the
  thrown value), the state, and the requests sent.\<close>

definition submit_try :: "env \<Rightarrow> session \<Rightarrow> (js_exn + unit) \<times> session \<times> request list" where
  "submit_try e s =
     (case processImageForUpload e s of
        Inl thrown \<Rightarrow> (Inl thrown, s, [])
      | Inr processedImage \<Rightarrow>
          (let req = \<lparr>upload_url = uploadApiUrl e, upload_image = processedImage\<rparr> in
           case uploadApi e req of
             Inl rejected \<Rightarrow> (Inl rejected, s, [Upload req])
           | Inr response \<Rightarrow>
               if \<not> ok response then
                 (case errorMessage (largeNumberText e) response of
                    Inl thrown \<Rightarrow> (Inl thrown, s, [Upload req])
                  | Inr m \<Rightarrow>
                      (Inl (Error (ToString (largeNumberText e) m)), s, [Upload req]))
               else
                 (case body response of
                    Inl thrown \<Rightarrow> (Inl thrown, s, [Upload req])
                  | Inr data \<Rightarrow>
                      (let s1 = s\<lparr>apiResponse := data\<rparr> in
                       case get data ''url'' of
                         Inl thrown \<Rightarrow> (Inl thrown, s1, [Upload req])
                       | Inr url \<Rightarrow>
                           if truthy url then
                             (case submitConvertImage e url of
                                (Inl thrown, sent) \<Rightarrow> (Inl thrown, s1, Upload req # sent)
                              | (Inr convertResult, sent) \<Rightarrow>
                                  (Inr (), s1\<lparr>convertResponse := convertResult\<rparr>,
                                   Upload req # sent))
                           else (Inr (), s1, [Upload req])))))"

definition handleSubmit :: "env \<Rightarrow> session \<Rightarrow> session \<times> request list" where
  "handleSubmit e s =
     (case selectedImage s of
        None \<Rightarrow> (s, [])
      | Some selected \<Rightarrow>
          (case submit_try e (s\<lparr>isSubmitting := True, error := None, convertResponse := JNull\<rparr>) of
             (Inl thrown, s', sent) \<Rightarrow>
               (s'\<lparr>error := Some (message thrown), isSubmitting := False\<rparr>, sent)
           | (Inr u, s', sent) \<Rightarrow> (s'\<lparr>isSubmitting := False\<rparr>, sent)))"

text \<open>The Convert requests among the requests sent.\<close>

definition convert_calls :: "request list \<Rightarrow> convert_request list" where
  "convert_calls sent = concat (map (\<lambda>r. case r of Convert c \<Rightarrow> [c] | Upload u \<Rightarrow> []) sent)"

text \<open>The upload failure message in the specification's words: a sub-error reduced to
  its \<^verbatim>\<open>msg\<close> or else written out as JSON, and the status-code message.\<close>

definition sub_error :: "(int \<Rightarrow> string) \<Rightarrow> jv \<Rightarrow> string" where
  "sub_error large d =
     (if truthy (field_of d ''msg'') then ToString large (field_of d ''msg'')
      else JSON_serialize large d)"

definition generic_upload_message :: "(int \<Rightarrow> string) \<Rightarrow> http_response \<Rightarrow> string" where
  "generic_upload_message large response =
     ''API error: '' @ Number_toString large (int (status response)) @ '' ''
       @ statusText response"

section \<open>A sample session\<close>

text \<open>A picked file, loaded previews and collaborators that answer with fixed responses,
  on which the functions above are run below. Every number in these runs is below
  \<open>2\<^sup>5\<^sup>3\<close>, so the engine's text for larger ones is never consulted.\<close>

definition example_file :: File where
  "example_file = \<lparr>file_name = ''a.png'', file_type = ''image/png'', file_content = Picked ''bytes''\<rparr>"

definition example_img :: HTMLImageElement where
  "example_img = \<lparr>naturalWidth = 200, naturalHeight = 100, displayWidth = 100, displayHeight = 50\<rparr>"

definition upload_success :: http_response where
  "upload_success =
     \<lparr>status = 200, statusText = ''OK'',
      body = Inr (JObj [(''status'', JStr ''success''), (''filename'', JStr ''a.png''),
                        (''url'', JStr ''http://x/a.png'')])\<rparr>"

definition convert_success :: http_response where
  "convert_success =
     \<lparr>status = 200, statusText = ''OK'', body = Inr (JObj [(''url'', JStr ''http://y/card.png'')])\<rparr>"

definition example_env :: "string option \<Rightarrow> string option \<Rightarrow> http_response \<Rightarrow> env" where
  "example_env url token answer =
     \<lparr>NEXT_PUBLIC_PARSE_URL = None,
      NEXT_PUBLIC_CONVERT_API_URL = url,
      NEXT_PUBLIC_CONVERT_API_TOKEN = token,
      NEXT_PUBLIC_CONVERT_ENTITY_TYPE = None,
      NEXT_PUBLIC_CONVERT_ENTITY_ID = None,
      NEXT_PUBLIC_CONVERT_CLASS_ID = None,
      NEXT_PUBLIC_CONVERT_SCHOOL_ID = None,
      NEXT_PUBLIC_CONVERT_ACADEMIC_YEAR = None,
      uploadApi = (\<lambda>req. Inr answer),
      convertApi = (\<lambda>req. Inr convert_success),
      getContext = True,
      toBlob = (\<lambda>cv mime. Some mime),
      largeNumberText = (\<lambda>n. [])\<rparr>"

definition selected_session :: session where
  "selected_session = handleImageSelect ''blob:preview'' (Some example_file) initial"

definition loaded_session :: session where
  "loaded_session = onLoad example_img selected_session"

definition upload_no_url :: http_response where
  "upload_no_url =
     \<lparr>status = 200, statusText = ''OK'',
      body = Inr (JObj [(''status'', JStr ''success''), (''filename'', JStr ''a.png'')])\<rparr>"

text \<open>A crop of 50.25 by 40 displayed pixels on an image shown at half its natural width
  and a third of its natural height, turned by \<open>-90\<close> degrees; and a 1920 by 1080 image
  shown at 302 by 170, uncropped and unturned.\<close>

definition cropped_img :: HTMLImageElement where
  "cropped_img = \<lparr>naturalWidth = 400, naturalHeight = 300, displayWidth = 200, displayHeight = 100\<rparr>"

definition cropped_session :: session where
  "cropped_session =
     (onLoad cropped_img selected_session)
       \<lparr>completedCrop := Some \<lparr>crop_unit = ''px'', crop_x = Finite 10, crop_y = Finite 20,
                                 crop_width = Finite (201 / 4), crop_height = Finite 40\<rparr>,
        grayscale := 250, contrast := 120, rotation := - 90\<rparr>"



definition upload_null :: http_response where
  "upload_null = \<lparr>status = 200, statusText = ''OK'', body = Inr JNull\<rparr>"

section \<open>Verification: Response Presenter\<close>

lemma non_null_object_iff: "non_null_object v \<longleftrightarrow> truthy v \<and> typeof v = ''object''"
  by (cases v) auto

lemma get_object: "non_null_object v \<Longrightarrow> get v k = Inr (field_of v k)"
  by (cases v) auto

lemma no_data_eq:
  "no_data response =
     Inr (\<not> (non_null_object response \<and> non_null_object (field_of response ''data'')))"
proof (cases response)
  case (JObj kvs)
  show ?thesis
  proof (cases "map_of kvs ''data''")
    case None
    then have "''data'' \<notin> fst ` set kvs" by (simp add: map_of_eq_None_iff)
    with None JObj show ?thesis by (simp add: no_data_def orE_def bindE_def)
  next
    case (Some d)
    then have "''data'' \<in> fst ` set kvs" by (metis map_of_eq_None_iff option.distinct(1))
    with Some JObj show ?thesis
      by (cases d) (simp_all add: no_data_def orE_def bindE_def)
  qed
qed (simp_all add: no_data_def orE_def bindE_def)

lemma table_of_eq:
  "table_of t = Inr (if spec_well_formed t then Some (spec_table t) else None)"
proof (cases "non_null_object t")
  case True
  then show ?thesis
    by (cases t) (auto simp: table_of_def orE_def bindE_def spec_well_formed_def spec_table_def)
next
  case False
  then show ?thesis
    by (cases t) (auto simp: table_of_def orE_def bindE_def spec_well_formed_def)
qed

lemma mapE_table_of:
  "mapE table_of ts =
     Inr (map (\<lambda>t. if spec_well_formed t then Some (spec_table t) else None) ts)"
  by (induction ts) (simp_all add: table_of_eq bindE_def)

lemma map_filter_well_formed:
  "List.map_filter id (map (\<lambda>t. if spec_well_formed t then Some (spec_table t) else None) ts)
     = map spec_table (filter spec_well_formed ts)"
  by (induction ts) (simp_all add: List.map_filter_def)

lemma extractConvertUrl_eq: "extractConvertUrl response = Inr (spec_url response)"
  by (cases response) (simp_all add: extractConvertUrl_def spec_url_def bindE_def)

lemma extractConvertMetadata_eq:
  "extractConvertMetadata response = Inr (spec_metadata response)"
proof (cases "non_null_object response \<and> non_null_object (field_of response ''data'')")
  case True
  then have g1: "get response ''data'' = Inr (field_of response ''data'')"
    and g2: "get (field_of response ''data'') ''metadata''
               = Inr (field_of (field_of response ''data'') ''metadata'')"
    by (simp_all add: get_object)
  from True have nd: "no_data response = Inr False" by (simp add: no_data_eq)
  show ?thesis
    using True
    by (simp add: extractConvertMetadata_def nd g1 g2 bindE_def spec_metadata_def
          non_null_object_iff [symmetric])
next
  case False
  then have "no_data response = Inr True" by (simp add: no_data_eq)
  moreover from False have "spec_metadata response = None"
    unfolding spec_metadata_def by auto
  ultimately show ?thesis
    by (simp add: extractConvertMetadata_def bindE_def)
qed

text \<open>
  \<^bold>\<open>C3.\<close> On every value, \<open>extractConvertTables\<close> ends normally (it is \<open>Inr\<close>: nothing is
  thrown), and what it returns is the list of tables made of the \<^verbatim>\<open>columns\<close> and
  \<^verbatim>\<open>rows\<close> of exactly those entries of \<^verbatim>\<open>data.extracted_tables\<close> that are non-null
  objects with both fields arrays, in their original order; the other entries are
  dropped. Where the response or \<^verbatim>\<open>data\<close> is not a non-null object, or
  \<^verbatim>\<open>extracted_tables\<close> is not an array, there are no entries and the result is empty.
\<close>

theorem extractConvertTables_filtered:
  "extractConvertTables response
     = Inr (map spec_table (filter spec_well_formed (spec_entries response)))
   \<and> (\<not> (non_null_object response \<and> non_null_object (field_of response ''data'')
           \<and> Array_isArray (field_of (field_of response ''data'') ''extracted_tables''))
        \<longrightarrow> extractConvertTables response = Inr [])"
proof -
  have eq: "extractConvertTables response
              = Inr (map spec_table (filter spec_well_formed (spec_entries response)))"
  proof (cases "non_null_object response \<and> non_null_object (field_of response ''data'')")
    case True
    then have g1: "get response ''data'' = Inr (field_of response ''data'')"
      and g2: "get (field_of response ''data'') ''extracted_tables''
                 = Inr (field_of (field_of response ''data'') ''extracted_tables'')"
      by (simp_all add: get_object)
    show ?thesis
      using True
      by (cases "field_of (field_of response ''data'') ''extracted_tables''")
         (simp_all add: extractConvertTables_def no_data_eq g1 g2 bindE_def spec_entries_def
            mapE_table_of map_filter_well_formed)
  next
    case False
    then have "no_data response = Inr True" by (simp add: no_data_eq)
    moreover from False have "spec_entries response = []"
      unfolding spec_entries_def by (rule if_not_P)
    ultimately show ?thesis
      by (simp add: extractConvertTables_def bindE_def)
  qed
  have "spec_entries response = []"
    if "\<not> (non_null_object response \<and> non_null_object (field_of response ''data'')
           \<and> Array_isArray (field_of (field_of response ''data'') ''extracted_tables''))"
    using that
    by (cases "field_of (field_of response ''data'') ''extracted_tables''")
       (auto simp: spec_entries_def)
  with eq show ?thesis by simp
qed

theorem extractConvertTables_filtered_witness:
  "extractConvertTables (JObj [(''data'', JObj [(''extracted_tables'',
      JArr [JObj [(''columns'', JArr [JStr ''Day'', JStr ''1'']),
                  (''rows'', JArr [JArr [JStr ''1'', JStr ''0'']])],
            JObj [(''columns'', JArr [JStr ''Day''])]])])])
   = Inr [\<lparr>columns = JArr [JStr ''Day'', JStr ''1''],
           rows = JArr [JArr [JStr ''1'', JStr ''0'']]\<rparr>] \<and>
   extractConvertTables (JObj [(''data'', JStr ''x'')]) = Inr [] \<and>
   extractConvertTables JNull = Inr []"
  by (simp add: extractConvertTables_filtered spec_entries_def spec_well_formed_def
        spec_table_def)

text \<open>
  \<^bold>\<open>C7.\<close> On every value, \<open>extractConvertUrl\<close> and \<open>extractConvertMetadata\<close> end normally
  (nothing is thrown). The first returns the top-level \<^verbatim>\<open>url\<close> exactly when the
  response is a non-null object and \<^verbatim>\<open>url\<close> is a string, and \<^verbatim>\<open>null\<close> otherwise;
  the second returns \<^verbatim>\<open>data.metadata\<close> exactly when the response, \<^verbatim>\<open>data\<close> and
  \<^verbatim>\<open>metadata\<close> are non-null objects, and \<^verbatim>\<open>null\<close> otherwise.
\<close>

theorem presenter_url_metadata:
  "extractConvertUrl response = Inr (spec_url response) \<and>
   extractConvertMetadata response = Inr (spec_metadata response)"
  by (simp add: extractConvertUrl_eq extractConvertMetadata_eq)

theorem presenter_url_metadata_witness:
  "extractConvertUrl (JObj [(''url'', JStr ''http://x/a.png'')]) = Inr (Some ''http://x/a.png'') \<and>
   extractConvertUrl (JObj [(''url'', JNum 5)]) = Inr None \<and>
   extractConvertUrl JNull = Inr None \<and>
   extractConvertMetadata (JObj [(''data'', JObj [(''metadata'', JObj [(''entityId'', JNum 0)])])])
     = Inr (Some (JObj [(''entityId'', JNum 0)])) \<and>
   extractConvertMetadata (JObj [(''data'', JObj [(''metadata'', JNull)])]) = Inr None \<and>
   extractConvertMetadata (JObj [(''data'', JNull)]) = Inr None"
  by (simp add: presenter_url_metadata spec_url_def spec_metadata_def)

section \<open>Verification: Transform Engine\<close>






lemma processImageForUpload_loaded:
  assumes "selectedImage s = Some selected" and "imageRef s = Some img" and "getContext e"
  shows "processImageForUpload e s
           = (case toBlob e (drawn e s img)
                     (if file_type selected \<noteq> [] then file_type selected else ''image/jpeg'') of
                None \<Rightarrow> Inl (Error ''Failed to process image'')
              | Some blob_type \<Rightarrow>
                  Inr \<lparr>file_name = file_name selected,
                       file_type = (if file_type selected \<noteq> [] then file_type selected
                                    else if blob_type \<noteq> [] then blob_type else ''image/jpeg''),
                       file_content = Rasterized (drawn e s img)\<rparr>)"
  using assms by (simp add: processImageForUpload_def)



lemma cropped_session_fields:
  "selectedImage cropped_session = Some example_file"
  "imageRef cropped_session = Some cropped_img"
  "rotation cropped_session = - 90" "grayscale cropped_session = 250"
  "contrast cropped_session = 120"
  by (simp_all add: cropped_session_def onLoad_def selected_session_def handleImageSelect_def
        resetEditorState_def initial_def)


lemma example_canvas:
  "getContext (example_env url token answer)"
  "toBlob (example_env url token answer) cv mime = Some mime"
  by (simp_all add: example_env_def)

lemma example_file_fields: "file_name example_file = ''a.png''" "file_type example_file = ''image/png''"
  by (simp_all add: example_file_def)








lemma clamp_string:
  "0 \<le> gv \<Longrightarrow> gv \<le> 100 \<Longrightarrow> Number_toString large gv = string_of_nat (nat gv)"
  by (simp add: Number_toString_def)

text \<open>
  \<^bold>\<open>C5.\<close> For every integer grayscale \<open>g\<close> and contrast \<open>c\<close> the filter is
  \<^verbatim>\<open>grayscale(gv%) contrast(c%)\<close>, where \<open>gv\<close> is \<open>g\<close> clamped into \<open>[0, 100]\<close> (0 below,
  100 above, \<open>g\<close> itself inside), written in decimal, and \<open>c\<close> is the contrast as given,
  written as JavaScript writes a number. With an image selected and loaded and a context
  available, it is the filter of the context of the canvas that \<open>processImageForUpload\<close>
  serializes, and returns as the file's content when a blob is produced.
\<close>

theorem filter_clamped:
  "(\<exists>gv. 0 \<le> gv \<and> gv \<le> 100
       \<and> (g < 0 \<longrightarrow> gv = 0) \<and> (100 < g \<longrightarrow> gv = 100) \<and> (0 \<le> g \<and> g \<le> 100 \<longrightarrow> gv = g)
       \<and> appliedFilter large g c
           = ''grayscale('' @ string_of_nat (nat gv) @ ''%) contrast(''
               @ Number_toString large c @ ''%)'')
   \<and> (selectedImage s = Some selected \<and> imageRef s = Some img \<and> getContext e \<longrightarrow>
        (\<exists>cv. processImageForUpload e s
                 = (case toBlob e cv
                           (if file_type selected \<noteq> [] then file_type selected
                            else ''image/jpeg'') of
                      None \<Rightarrow> Inl (Error ''Failed to process image'')
                    | Some blob_type \<Rightarrow>
                        Inr \<lparr>file_name = file_name selected,
                             file_type = (if file_type selected \<noteq> [] then file_type selected
                                          else if blob_type \<noteq> [] then blob_type
                                          else ''image/jpeg''),
                             file_content = Rasterized cv\<rparr>)
          \<and> ctx_filter cv = appliedFilter (largeNumberText e) (grayscale s) (contrast s)))"
proof -
  let ?gv = "max 0 (min 100 g)"
  have r: "0 \<le> ?gv" "?gv \<le> 100" "g < 0 \<longrightarrow> ?gv = 0" "100 < g \<longrightarrow> ?gv = 100"
    "0 \<le> g \<and> g \<le> 100 \<longrightarrow> ?gv = g"
    by auto
  have "Number_toString large ?gv = string_of_nat (nat ?gv)"
    using r(1,2) by (rule clamp_string)
  then have t: "appliedFilter large g c
         = ''grayscale('' @ string_of_nat (nat ?gv) @ ''%) contrast(''
             @ Number_toString large c @ ''%)''"
    by (simp add: appliedFilter_def Let_def)
  have a: "\<exists>gv. 0 \<le> gv \<and> gv \<le> 100
       \<and> (g < 0 \<longrightarrow> gv = 0) \<and> (100 < g \<longrightarrow> gv = 100) \<and> (0 \<le> g \<and> g \<le> 100 \<longrightarrow> gv = g)
       \<and> appliedFilter large g c
           = ''grayscale('' @ string_of_nat (nat gv) @ ''%) contrast(''
               @ Number_toString large c @ ''%)''"
    by (rule exI [of _ ?gv]) (intro conjI r t)
  have l: "\<exists>cv. processImageForUpload e s
                 = (case toBlob e cv
                           (if file_type selected \<noteq> [] then file_type selected
                            else ''image/jpeg'') of
                      None \<Rightarrow> Inl (Error ''Failed to process image'')
                    | Some blob_type \<Rightarrow>
                        Inr \<lparr>file_name = file_name selected,
                             file_type = (if file_type selected \<noteq> [] then file_type selected
                                          else if blob_type \<noteq> [] then blob_type
                                          else ''image/jpeg''),
                             file_content = Rasterized cv\<rparr>)
          \<and> ctx_filter cv = appliedFilter (largeNumberText e) (grayscale s) (contrast s)"
    if h: "selectedImage s = Some selected \<and> imageRef s = Some img \<and> getContext e"
  proof (rule exI [of _ "drawn e s img"], intro conjI)
    from h show "processImageForUpload e s
                 = (case toBlob e (drawn e s img)
                           (if file_type selected \<noteq> [] then file_type selected
                            else ''image/jpeg'') of
                      None \<Rightarrow> Inl (Error ''Failed to process image'')
                    | Some blob_type \<Rightarrow>
                        Inr \<lparr>file_name = file_name selected,
                             file_type = (if file_type selected \<noteq> [] then file_type selected
                                          else if blob_type \<noteq> [] then blob_type
                                          else ''image/jpeg''),
                             file_content = Rasterized (drawn e s img)\<rparr>)"
      by (simp add: processImageForUpload_loaded)
    show "ctx_filter (drawn e s img) = appliedFilter (largeNumberText e) (grayscale s) (contrast s)"
      by (simp add: drawn_def Let_def)
  qed
  from a l show ?thesis by (intro conjI impI) assumption+
qed

lemma Number_toString_examples:
  "Number_toString large 0 = ''0''" "Number_toString large 100 = ''100''"
  "Number_toString large 120 = ''120''" "Number_toString large 35 = ''35''"
  by (simp_all add: Number_toString_def string_of_nat.simps)

lemma string_of_nat_examples:
  "string_of_nat 0 = ''0''" "string_of_nat 100 = ''100''"
  by (simp_all add: string_of_nat.simps)

theorem filter_clamped_witness:
  "appliedFilter (largeNumberText (example_env None None upload_success)) (- 10) 100
     = ''grayscale(0%) contrast(100%)''
   \<and> processImageForUpload (example_env None None upload_success) cropped_session
     = Inr \<lparr>file_name = ''a.png'', file_type = ''image/png'',
            file_content =
              Rasterized (drawn (example_env None None upload_success) cropped_session cropped_img)\<rparr>
   \<and> grayscale cropped_session = 250 \<and> contrast cropped_session = 120
   \<and> ctx_filter (drawn (example_env None None upload_success) cropped_session cropped_img)
       = ''grayscale(100%) contrast(120%)''"
proof -
  let ?e = "example_env None None upload_success"
  have h: "selectedImage cropped_session = Some example_file
             \<and> imageRef cropped_session = Some cropped_img \<and> getContext ?e"
    by (simp add: cropped_session_fields example_canvas)
  from filter_clamped [of "- 10" "largeNumberText ?e" 100] obtain g1 where
    "g1 = 0" "appliedFilter (largeNumberText ?e) (- 10) 100
       = ''grayscale('' @ string_of_nat (nat g1) @ ''%) contrast(''
           @ Number_toString (largeNumberText ?e) 100 @ ''%)''"
    by force
  then have a: "appliedFilter (largeNumberText ?e) (- 10) 100 = ''grayscale(0%) contrast(100%)''"
    by (simp add: Number_toString_examples string_of_nat_examples)
  from filter_clamped [of 250 "largeNumberText ?e" 120] obtain g2 where
    "g2 = 100" "appliedFilter (largeNumberText ?e) 250 120
       = ''grayscale('' @ string_of_nat (nat g2) @ ''%) contrast(''
           @ Number_toString (largeNumberText ?e) 120 @ ''%)''"
    by force
  then have b: "appliedFilter (largeNumberText ?e) 250 120 = ''grayscale(100%) contrast(120%)''"
    by (simp add: Number_toString_examples string_of_nat_examples)
  from filter_clamped [of 0 "largeNumberText ?e" 0 cropped_session example_file cropped_img ?e] h
  obtain cv where
    f: "processImageForUpload ?e cropped_session
          = Inr \<lparr>file_name = ''a.png'', file_type = ''image/png'', file_content = Rasterized cv\<rparr>"
    and t: "ctx_filter cv = appliedFilter (largeNumberText ?e) (grayscale cropped_session)
                               (contrast cropped_session)"
    by (auto simp: example_canvas example_file_fields)
  have p: "processImageForUpload ?e cropped_session
     = Inr \<lparr>file_name = ''a.png'', file_type = ''image/png'',
            file_content = Rasterized (drawn ?e cropped_session cropped_img)\<rparr>"
    using h by (simp add: processImageForUpload_loaded example_canvas example_file_fields)
  with f have cv: "cv = drawn ?e cropped_session cropped_img" by simp
  with t b have "ctx_filter (drawn ?e cropped_session cropped_img)
       = ''grayscale(100%) contrast(120%)''"
    by (simp add: cropped_session_fields)
  with a p show ?thesis by (simp add: cropped_session_fields)
qed


section \<open>Verification: Upload Orchestrator\<close>

lemma get_field: "v \<noteq> JNull \<Longrightarrow> v \<noteq> JUndefined \<Longrightarrow> get v k = Inr (field_of v k)"
  by (cases v) auto

lemma drawn_submitting:
  "drawn e (s\<lparr>isSubmitting := a, error := b, convertResponse := c\<rparr>) img = drawn e s img"
  by (simp add: drawn_def sourceWidth_def sourceHeight_def activeCrop_def)

lemma processImageForUpload_submitting:
  "processImageForUpload e (s\<lparr>isSubmitting := a, error := b, convertResponse := c\<rparr>)
     = processImageForUpload e s"
  by (simp add: processImageForUpload_def drawn_submitting split: option.splits)

lemma submit_try_sends_upload:
  "processImageForUpload e s = Inr p \<Longrightarrow>
   \<exists>r s' rest. submit_try e s = (r, s', Upload \<lparr>upload_url = uploadApiUrl e, upload_image = p\<rparr> # rest)"
  by (auto simp: submit_try_def Let_def split: sum.splits prod.splits if_splits)

lemma handleSubmit_sends_upload:
  assumes "selectedImage s = Some selected" and "processImageForUpload e s = Inr p"
  shows "\<exists>rest. snd (handleSubmit e s) = Upload \<lparr>upload_url = uploadApiUrl e, upload_image = p\<rparr> # rest"
proof -
  let ?s = "s\<lparr>isSubmitting := True, error := None, convertResponse := JNull\<rparr>"
  from assms(2) have "processImageForUpload e ?s = Inr p"
    by (simp add: processImageForUpload_submitting)
  from submit_try_sends_upload [OF this] obtain r s' rest where
    "submit_try e ?s = (r, s', Upload \<lparr>upload_url = uploadApiUrl e, upload_image = p\<rparr> # rest)"
    by blast
  with assms(1) show ?thesis
    by (cases r) (simp_all add: handleSubmit_def)
qed

text \<open>
  \<^bold>\<open>C10.\<close> With an image selected and no image element stored (the preview never
  loaded), \<open>processImageForUpload\<close> returns the selected file itself, without an error
  and without any canvas work, and that file is what \<open>handleSubmit\<close> posts to the upload
  endpoint.
\<close>

theorem unloaded_preview_uploads_original:
  assumes "selectedImage s = Some f" and "imageRef s = None"
  shows "processImageForUpload e s = Inr f \<and>
         (\<exists>rest. snd (handleSubmit e s)
                    = Upload \<lparr>upload_url = uploadApiUrl e, upload_image = f\<rparr> # rest)"
proof -
  from assms have p: "processImageForUpload e s = Inr f"
    by (simp add: processImageForUpload_def)
  with handleSubmit_sends_upload [OF assms(1) p] show ?thesis by simp
qed

lemma selected_session_fields:
  "selectedImage selected_session = Some example_file" "imageRef selected_session = None"
  by (simp_all add: selected_session_def handleImageSelect_def resetEditorState_def initial_def)

theorem unloaded_preview_uploads_original_witness:
  "selectedImage selected_session = Some example_file \<and> imageRef selected_session = None \<and>
   processImageForUpload (example_env None None upload_success) selected_session
     = Inr example_file \<and>
   hd (snd (handleSubmit (example_env None None upload_success) selected_session))
     = Upload \<lparr>upload_url = ''https://parse.jivalearningsystem.com/api/upload-to-tmpfiles'',
               upload_image = example_file\<rparr>"
proof -
  from unloaded_preview_uploads_original [OF selected_session_fields,
      of "example_env None None upload_success"]
  obtain rest where
    "processImageForUpload (example_env None None upload_success) selected_session
       = Inr example_file"
    "snd (handleSubmit (example_env None None upload_success) selected_session)
       = Upload \<lparr>upload_url = uploadApiUrl (example_env None None upload_success),
                 upload_image = example_file\<rparr> # rest"
    by blast
  then show ?thesis
    by (simp add: selected_session_fields uploadApiUrl_def env_or_def example_env_def)
qed

lemma submit_try_ok:
  assumes "processImageForUpload e s = Inr p"
    and "uploadApi e \<lparr>upload_url = uploadApiUrl e, upload_image = p\<rparr> = Inr response"
    and "ok response" and "body response = Inr data"
    and "data \<noteq> JNull" and "data \<noteq> JUndefined"
  shows "submit_try e s =
     (if truthy (field_of data ''url'') then
        (case submitConvertImage e (field_of data ''url'') of
           (Inl thrown, sent) \<Rightarrow>
             (Inl thrown, s\<lparr>apiResponse := data\<rparr>,
              Upload \<lparr>upload_url = uploadApiUrl e, upload_image = p\<rparr> # sent)
         | (Inr convertResult, sent) \<Rightarrow>
             (Inr (), s\<lparr>apiResponse := data, convertResponse := convertResult\<rparr>,
              Upload \<lparr>upload_url = uploadApiUrl e, upload_image = p\<rparr> # sent))
      else (Inr (), s\<lparr>apiResponse := data\<rparr>,
            [Upload \<lparr>upload_url = uploadApiUrl e, upload_image = p\<rparr>]))"
  using assms by (simp add: submit_try_def Let_def get_field)

text \<open>
  \<^bold>\<open>C6\<close> (amended). When the upload answers 2xx with a parseable body other than
  \<^verbatim>\<open>null\<close> (a JSON value is never \<^verbatim>\<open>undefined\<close>) whose \<^verbatim>\<open>url\<close> is absent or
  empty, \<open>handleSubmit\<close> ends in the finished state: the body is recorded as the upload
  result, no error is set, the submitting flag is cleared, and the upload is the only
  request sent (no Convert call).
\<close>

theorem upload_without_url_done:
  assumes "selectedImage s = Some selected"
    and "processImageForUpload e s = Inr p"
    and "uploadApi e \<lparr>upload_url = uploadApiUrl e, upload_image = p\<rparr> = Inr response"
    and "ok response" and "body response = Inr data"
    and "data \<noteq> JNull" and "data \<noteq> JUndefined"
    and "\<not> truthy (field_of data ''url'')"
  shows "handleSubmit e s =
           (s\<lparr>isSubmitting := False, error := None, convertResponse := JNull,
              apiResponse := data\<rparr>,
            [Upload \<lparr>upload_url = uploadApiUrl e, upload_image = p\<rparr>])
         \<and> convert_calls (snd (handleSubmit e s)) = []"
proof -
  let ?s = "s\<lparr>isSubmitting := True, error := None, convertResponse := JNull\<rparr>"
  from assms(2) have "processImageForUpload e ?s = Inr p"
    by (simp add: processImageForUpload_submitting)
  from submit_try_ok [OF this assms(3-7)] assms(8)
  have "submit_try e ?s = (Inr (), ?s\<lparr>apiResponse := data\<rparr>,
          [Upload \<lparr>upload_url = uploadApiUrl e, upload_image = p\<rparr>])"
    by simp
  with assms(1) show ?thesis
    by (simp add: handleSubmit_def convert_calls_def)
qed


lemma example_process_selected:
  "processImageForUpload (example_env url token answer) selected_session = Inr example_file"
  by (simp add: processImageForUpload_def selected_session_fields)

lemma example_uploadApi: "uploadApi (example_env url token answer) req = Inr answer"
  by (simp add: example_env_def)

lemma example_uploadApiUrl:
  "uploadApiUrl (example_env url token answer)
     = ''https://parse.jivalearningsystem.com/api/upload-to-tmpfiles''"
  by (simp add: uploadApiUrl_def env_or_def example_env_def)

theorem upload_without_url_done_witness:
  "ok upload_no_url \<and>
   body upload_no_url = Inr (JObj [(''status'', JStr ''success''), (''filename'', JStr ''a.png'')]) \<and>
   handleSubmit (example_env None (Some ''tok'') upload_no_url) selected_session
     = (selected_session\<lparr>isSubmitting := False, error := None, convertResponse := JNull,
          apiResponse := JObj [(''status'', JStr ''success''), (''filename'', JStr ''a.png'')]\<rparr>,
        [Upload \<lparr>upload_url = ''https://parse.jivalearningsystem.com/api/upload-to-tmpfiles'',
                  upload_image = example_file\<rparr>])"
proof -
  let ?data = "JObj [(''status'', JStr ''success''), (''filename'', JStr ''a.png'')]"
  have a: "ok upload_no_url" by (simp add: ok_def upload_no_url_def)
  have b: "body upload_no_url = Inr ?data" by (simp add: upload_no_url_def)
  have c: "?data \<noteq> JNull" "?data \<noteq> JUndefined" "\<not> truthy (field_of ?data ''url'')"
    by simp_all
  from upload_without_url_done [OF selected_session_fields(1) example_process_selected
      example_uploadApi a b c]
  show ?thesis using a b by (simp add: example_uploadApiUrl)
qed

text \<open>
  \<^bold>\<open>C6\<close> as stated fails for the body \<^verbatim>\<open>null\<close>: it parses, it has no \<^verbatim>\<open>url\<close>, and
  reading \<^verbatim>\<open>url\<close> from it throws, so the session ends with an error set.
\<close>

theorem upload_without_url_done_counterexample:
  "selectedImage selected_session = Some example_file \<and>
   ok upload_null \<and> body upload_null = Inr JNull \<and>
   uploadApi (example_env None (Some ''tok'') upload_null)
     \<lparr>upload_url = ''https://parse.jivalearningsystem.com/api/upload-to-tmpfiles'',
      upload_image = example_file\<rparr> = Inr upload_null \<and>
   error (fst (handleSubmit (example_env None (Some ''tok'') upload_null) selected_session))
     \<noteq> None \<and>
   convert_calls (snd (handleSubmit (example_env None (Some ''tok'') upload_null)
                         selected_session)) = []"
proof -
  let ?e = "example_env None (Some ''tok'') upload_null"
  let ?s = "selected_session\<lparr>isSubmitting := True, error := None, convertResponse := JNull\<rparr>"
  have n: "ok upload_null" "body upload_null = Inr JNull"
    by (simp_all add: ok_def upload_null_def)
  have "processImageForUpload ?e ?s = Inr example_file"
    by (simp add: processImageForUpload_submitting example_process_selected)
  then have "submit_try ?e ?s =
      (Inl (TypeError (''Cannot read properties of null (reading '' @ [CHR 0x27] @ ''url''
                         @ [CHR 0x27] @ '')'')),
       ?s\<lparr>apiResponse := JNull\<rparr>,
       [Upload \<lparr>upload_url = uploadApiUrl ?e, upload_image = example_file\<rparr>])"
    using n by (simp add: submit_try_def Let_def example_uploadApi)
  then have "error (fst (handleSubmit ?e selected_session)) \<noteq> None"
    "convert_calls (snd (handleSubmit ?e selected_session)) = []"
    by (simp_all add: handleSubmit_def selected_session_fields convert_calls_def)
  with n show ?thesis
    by (simp add: selected_session_fields example_uploadApi)
qed

lemma convertApiUrl_nonempty: "convertApiUrl e \<noteq> []"
  by (simp add: convertApiUrl_def env_or_def split: option.splits)

lemma submitConvertImage_calls:
  "convertApiToken e \<noteq> [] \<Longrightarrow>
   snd (submitConvertImage e imageUrl)
     = [Convert \<lparr>convert_url = convertApiUrl e,
                 authorization = ''Bearer '' @ convertApiToken e,
                 form = [(''image_url'', ToString (largeNumberText e) imageUrl),
                         (''entityType'', convertEntityType e),
                         (''entityId'', convertEntityId e),
                         (''class_id'', convertClassId e),
                         (''school_id'', convertSchoolId e),
                         (''academic_year'', convertAcademicYear e)]\<rparr>]"
  by (simp add: submitConvertImage_def convertApiUrl_nonempty Let_def split: sum.splits)

lemma submit_try_sent:
  assumes "processImageForUpload e s = Inr p"
    and "uploadApi e \<lparr>upload_url = uploadApiUrl e, upload_image = p\<rparr> = Inr response"
    and "ok response" and "body response = Inr data"
    and "data \<noteq> JNull" and "data \<noteq> JUndefined"
    and "truthy (field_of data ''url'')"
  shows "snd (snd (submit_try e s))
           = Upload \<lparr>upload_url = uploadApiUrl e, upload_image = p\<rparr>
               # snd (submitConvertImage e (field_of data ''url''))"
    and "apiResponse (fst (snd (submit_try e s))) = data"
  using assms(7) unfolding submit_try_ok [OF assms(1-6)]
  by (simp_all split: prod.splits sum.splits)

lemma handleSubmit_sent: "selectedImage s = Some selected \<Longrightarrow>
   snd (handleSubmit e s)
     = snd (snd (submit_try e (s\<lparr>isSubmitting := True, error := None, convertResponse := JNull\<rparr>)))"
  by (simp add: handleSubmit_def split: prod.splits sum.splits)

lemma handleSubmit_apiResponse: "selectedImage s = Some selected \<Longrightarrow>
   apiResponse (fst (handleSubmit e s))
     = apiResponse (fst (snd (submit_try e
         (s\<lparr>isSubmitting := True, error := None, convertResponse := JNull\<rparr>))))"
  by (simp add: handleSubmit_def split: prod.splits sum.splits)

text \<open>
  \<^bold>\<open>C2\<close> (amended). When the upload answers 2xx with a parseable body whose \<^verbatim>\<open>url\<close>
  is a non-empty string and a bearer token is configured, \<open>handleSubmit\<close> sends, after
  the upload, exactly one Convert request: to the convert endpoint, with the header
  \<^verbatim>\<open>Authorization: Bearer <token>\<close> and form data \<^verbatim>\<open>image_url\<close> equal to that url
  followed by the five metadata fields.
\<close>

theorem upload_url_forwarded:
  assumes "selectedImage s = Some selected"
    and "processImageForUpload e s = Inr p"
    and "uploadApi e \<lparr>upload_url = uploadApiUrl e, upload_image = p\<rparr> = Inr response"
    and "ok response" and "body response = Inr data"
    and "field_of data ''url'' = JStr u" and "u \<noteq> []"
    and "convertApiToken e \<noteq> []"
  shows "snd (handleSubmit e s) =
           [Upload \<lparr>upload_url = uploadApiUrl e, upload_image = p\<rparr>,
            Convert \<lparr>convert_url = convertApiUrl e,
                     authorization = ''Bearer '' @ convertApiToken e,
                     form = [(''image_url'', u),
                             (''entityType'', convertEntityType e),
                             (''entityId'', convertEntityId e),
                             (''class_id'', convertClassId e),
                             (''school_id'', convertSchoolId e),
                             (''academic_year'', convertAcademicYear e)]\<rparr>]
         \<and> length (convert_calls (snd (handleSubmit e s))) = 1
         \<and> apiResponse (fst (handleSubmit e s)) = data"
proof -
  let ?s = "s\<lparr>isSubmitting := True, error := None, convertResponse := JNull\<rparr>"
  from assms(6) have d: "data \<noteq> JNull" "data \<noteq> JUndefined" by auto
  from assms(6,7) have t: "truthy (field_of data ''url'')" by simp
  from assms(2) have p: "processImageForUpload e ?s = Inr p"
    by (simp add: processImageForUpload_submitting)
  note sent = submit_try_sent [OF p assms(3-5) d t]
  have "snd (handleSubmit e s) = Upload \<lparr>upload_url = uploadApiUrl e, upload_image = p\<rparr>
               # snd (submitConvertImage e (JStr u))"
    using sent(1) assms(1,6) by (simp add: handleSubmit_sent)
  moreover have "apiResponse (fst (handleSubmit e s)) = data"
    using sent(2) assms(1) by (simp add: handleSubmit_apiResponse)
  ultimately show ?thesis
    using assms(8) by (simp add: submitConvertImage_calls convert_calls_def)
qed


lemma example_config:
  "convertApiUrl (example_env None token answer)
     = ''http://localhost:3000/api/v1/growth-card/convert-image''"
  "convertApiToken (example_env url (Some ''tok'') answer) = ''tok''"
  "convertApiToken (example_env url None answer) = []"
  "convertEntityType (example_env url token answer) = ''dkn_report''"
  "convertEntityId (example_env url token answer) = ''0''"
  "convertClassId (example_env url token answer) = ''132''"
  "convertSchoolId (example_env url token answer) = ''215''"
  "convertAcademicYear (example_env url token answer) = ''2025-2026''"
  by (simp_all add: convertApiUrl_def convertApiToken_def convertEntityType_def
        convertEntityId_def convertClassId_def convertSchoolId_def convertAcademicYear_def
        env_or_def example_env_def)

lemma upload_success_fields:
  "ok upload_success"
  "body upload_success = Inr (JObj [(''status'', JStr ''success''), (''filename'', JStr ''a.png''),
                                     (''url'', JStr ''http://x/a.png'')])"
  by (simp_all add: ok_def upload_success_def)

theorem upload_url_forwarded_witness:
  "snd (handleSubmit (example_env None (Some ''tok'') upload_success) selected_session) =
     [Upload \<lparr>upload_url = ''https://parse.jivalearningsystem.com/api/upload-to-tmpfiles'',
               upload_image = example_file\<rparr>,
      Convert \<lparr>convert_url = ''http://localhost:3000/api/v1/growth-card/convert-image'',
                authorization = ''Bearer tok'',
                form = [(''image_url'', ''http://x/a.png''),
                        (''entityType'', ''dkn_report''),
                        (''entityId'', ''0''),
                        (''class_id'', ''132''),
                        (''school_id'', ''215''),
                        (''academic_year'', ''2025-2026'')]\<rparr>]"
proof -
  have u: "field_of (JObj [(''status'', JStr ''success''), (''filename'', JStr ''a.png''),
                           (''url'', JStr ''http://x/a.png'')]) ''url'' = JStr ''http://x/a.png''"
    "''http://x/a.png'' \<noteq> []"
    by simp_all
  have t: "convertApiToken (example_env None (Some ''tok'') upload_success) \<noteq> []"
    by (simp add: example_config)
  from upload_url_forwarded [OF selected_session_fields(1) example_process_selected
      example_uploadApi upload_success_fields u t]
  show ?thesis by (simp add: example_config example_uploadApiUrl)
qed

lemma submitConvertImage_no_token:
  "convertApiToken e = [] \<Longrightarrow>
   submitConvertImage e imageUrl
     = (Inl (Error ''Convert API configuration missing. Check environment variables.''), [])"
  by (simp add: submitConvertImage_def)

lemma handleSubmit_no_token:
  assumes "selectedImage s = Some selected"
    and "processImageForUpload e s = Inr p"
    and "uploadApi e \<lparr>upload_url = uploadApiUrl e, upload_image = p\<rparr> = Inr response"
    and "ok response" and "body response = Inr data"
    and "data \<noteq> JNull" and "data \<noteq> JUndefined"
    and "truthy (field_of data ''url'')"
    and "convertApiToken e = []"
  shows "handleSubmit e s =
           (s\<lparr>isSubmitting := False,
              error := Some ''Convert API configuration missing. Check environment variables.'',
              convertResponse := JNull, apiResponse := data\<rparr>,
            [Upload \<lparr>upload_url = uploadApiUrl e, upload_image = p\<rparr>])"
proof -
  let ?s = "s\<lparr>isSubmitting := True, error := None, convertResponse := JNull\<rparr>"
  from assms(2) have "processImageForUpload e ?s = Inr p"
    by (simp add: processImageForUpload_submitting)
  from submit_try_ok [OF this assms(3-7)] assms(8,9)
  have "submit_try e ?s =
          (Inl (Error ''Convert API configuration missing. Check environment variables.''),
           ?s\<lparr>apiResponse := data\<rparr>,
           [Upload \<lparr>upload_url = uploadApiUrl e, upload_image = p\<rparr>])"
    by (simp add: submitConvertImage_no_token)
  with assms(1) show ?thesis
    by (simp add: handleSubmit_def)
qed

text \<open>
  \<^bold>\<open>C2\<close> as stated fails without a token: the upload answers 200 with
  \<^verbatim>\<open>url = "http://x/a.png"\<close>, and no Convert request is sent.
\<close>

theorem upload_url_forwarded_counterexample:
  "selectedImage selected_session = Some example_file \<and>
   ok upload_success \<and>
   body upload_success = Inr (JObj [(''status'', JStr ''success''), (''filename'', JStr ''a.png''),
                                     (''url'', JStr ''http://x/a.png'')]) \<and>
   uploadApi (example_env None None upload_success)
     \<lparr>upload_url = ''https://parse.jivalearningsystem.com/api/upload-to-tmpfiles'',
      upload_image = example_file\<rparr> = Inr upload_success \<and>
   convert_calls (snd (handleSubmit (example_env None None upload_success) selected_session)) = []"
proof -
  have "handleSubmit (example_env None None upload_success) selected_session =
          (selected_session\<lparr>isSubmitting := False,
              error := Some ''Convert API configuration missing. Check environment variables.'',
              convertResponse := JNull,
              apiResponse := JObj [(''status'', JStr ''success''), (''filename'', JStr ''a.png''),
                                   (''url'', JStr ''http://x/a.png'')]\<rparr>,
           [Upload \<lparr>upload_url = uploadApiUrl (example_env None None upload_success),
                     upload_image = example_file\<rparr>])"
    by (rule handleSubmit_no_token [OF selected_session_fields(1) example_process_selected
          example_uploadApi upload_success_fields]) (simp_all add: example_config)
  then show ?thesis
    by (simp add: selected_session_fields upload_success_fields example_uploadApi
          convert_calls_def)
qed

text \<open>
  \<^bold>\<open>C9\<close> (amended). When the bearer token is unset or empty, \<open>submitConvertImage\<close> throws
  the configuration error before any request is sent; in \<open>handleSubmit\<close> that message
  becomes the session's error and no Convert request is made. The message differs from
  every status-code message of the two HTTP error paths. A missing Convert URL is not an
  error: the endpoint is then the built-in local address, and it is never empty.
\<close>

theorem missing_token_fails_fast:
  assumes "NEXT_PUBLIC_CONVERT_API_TOKEN e = None \<or> NEXT_PUBLIC_CONVERT_API_TOKEN e = Some []"
  shows "submitConvertImage e imageUrl
           = (Inl (Error ''Convert API configuration missing. Check environment variables.''), [])
    \<and> (\<forall>s selected p response data.
          selectedImage s = Some selected \<and> processImageForUpload e s = Inr p
          \<and> uploadApi e \<lparr>upload_url = uploadApiUrl e, upload_image = p\<rparr> = Inr response
          \<and> ok response \<and> body response = Inr data \<and> data \<noteq> JNull \<and> data \<noteq> JUndefined
          \<and> truthy (field_of data ''url'')
        \<longrightarrow> error (fst (handleSubmit e s))
              = Some ''Convert API configuration missing. Check environment variables.''
            \<and> convert_calls (snd (handleSubmit e s)) = [])
    \<and> (\<forall>t. ''Convert API configuration missing. Check environment variables.''
             \<noteq> ''Convert API error: '' @ t)
    \<and> (\<forall>t. ''Convert API configuration missing. Check environment variables.''
             \<noteq> ''API error: '' @ t)
    \<and> convertApiUrl e \<noteq> []
    \<and> (NEXT_PUBLIC_CONVERT_API_URL e = None \<or> NEXT_PUBLIC_CONVERT_API_URL e = Some []
        \<longrightarrow> convertApiUrl e = ''http://localhost:3000/api/v1/growth-card/convert-image'')"
proof -
  from assms have tok: "convertApiToken e = []"
    by (auto simp: convertApiToken_def env_or_def)
  have a: "submitConvertImage e imageUrl
           = (Inl (Error ''Convert API configuration missing. Check environment variables.''), [])"
    using tok by (rule submitConvertImage_no_token)
  have b: "error (fst (handleSubmit e s))
              = Some ''Convert API configuration missing. Check environment variables.''
            \<and> convert_calls (snd (handleSubmit e s)) = []"
    if "selectedImage s = Some selected" "processImageForUpload e s = Inr p"
      "uploadApi e \<lparr>upload_url = uploadApiUrl e, upload_image = p\<rparr> = Inr response"
      "ok response" "body response = Inr data" "data \<noteq> JNull" "data \<noteq> JUndefined"
      "truthy (field_of data ''url'')"
    for s selected p response data
    using handleSubmit_no_token [OF that tok] by (simp add: convert_calls_def)
  have c: "convertApiUrl e \<noteq> []" by (rule convertApiUrl_nonempty)
  have d: "NEXT_PUBLIC_CONVERT_API_URL e = None \<or> NEXT_PUBLIC_CONVERT_API_URL e = Some []
        \<longrightarrow> convertApiUrl e = ''http://localhost:3000/api/v1/growth-card/convert-image''"
    by (auto simp: convertApiUrl_def env_or_def)
  have b': "\<forall>s selected p response data.
          selectedImage s = Some selected \<and> processImageForUpload e s = Inr p
          \<and> uploadApi e \<lparr>upload_url = uploadApiUrl e, upload_image = p\<rparr> = Inr response
          \<and> ok response \<and> body response = Inr data \<and> data \<noteq> JNull \<and> data \<noteq> JUndefined
          \<and> truthy (field_of data ''url'')
        \<longrightarrow> error (fst (handleSubmit e s))
              = Some ''Convert API configuration missing. Check environment variables.''
            \<and> convert_calls (snd (handleSubmit e s)) = []"
    using b by blast
  have m1: "\<forall>t. ''Convert API configuration missing. Check environment variables.''
             \<noteq> ''Convert API error: '' @ t"
    by simp
  have m2: "\<forall>t. ''Convert API configuration missing. Check environment variables.''
             \<noteq> ''API error: '' @ t"
    by simp
  show ?thesis using a b' m1 m2 c d by (intro conjI) assumption+
qed

theorem missing_token_fails_fast_witness:
  "NEXT_PUBLIC_CONVERT_API_TOKEN (example_env None None upload_success) = None \<and>
   NEXT_PUBLIC_CONVERT_API_URL (example_env None None upload_success) = None \<and>
   convertApiUrl (example_env None None upload_success)
     = ''http://localhost:3000/api/v1/growth-card/convert-image'' \<and>
   submitConvertImage (example_env None None upload_success) (JStr ''http://x/a.png'')
     = (Inl (Error ''Convert API configuration missing. Check environment variables.''), []) \<and>
   error (fst (handleSubmit (example_env None None upload_success) selected_session))
     = Some ''Convert API configuration missing. Check environment variables.'' \<and>
   convert_calls (snd (handleSubmit (example_env None None upload_success) selected_session)) = []"
proof -
  have t: "NEXT_PUBLIC_CONVERT_API_TOKEN (example_env None None upload_success) = None"
    by (simp add: example_env_def)
  note m = missing_token_fails_fast [OF disjI1, OF t]
  have h: "selectedImage selected_session = Some example_file \<and>
      processImageForUpload (example_env None None upload_success) selected_session
        = Inr example_file \<and>
      uploadApi (example_env None None upload_success)
        \<lparr>upload_url = uploadApiUrl (example_env None None upload_success),
         upload_image = example_file\<rparr> = Inr upload_success \<and>
      ok upload_success \<and>
      body upload_success = Inr (JObj [(''status'', JStr ''success''), (''filename'', JStr ''a.png''),
                                     (''url'', JStr ''http://x/a.png'')]) \<and>
      JObj [(''status'', JStr ''success''), (''filename'', JStr ''a.png''),
            (''url'', JStr ''http://x/a.png'')] \<noteq> JNull \<and>
      JObj [(''status'', JStr ''success''), (''filename'', JStr ''a.png''),
            (''url'', JStr ''http://x/a.png'')] \<noteq> JUndefined \<and>
      truthy (field_of (JObj [(''status'', JStr ''success''), (''filename'', JStr ''a.png''),
            (''url'', JStr ''http://x/a.png'')]) ''url'')"
    by (simp add: selected_session_fields example_process_selected example_uploadApi
          upload_success_fields)
  from m [of "JStr ''http://x/a.png''"] have a:
    "submitConvertImage (example_env None None upload_success) (JStr ''http://x/a.png'')
     = (Inl (Error ''Convert API configuration missing. Check environment variables.''), [])"
    by (rule conjunct1)
  have u: "NEXT_PUBLIC_CONVERT_API_URL (example_env None None upload_success) = None"
    by (simp add: example_env_def)
  from m [of JNull] u
  have d: "convertApiUrl (example_env None None upload_success)
             = ''http://localhost:3000/api/v1/growth-card/convert-image''"
    by blast
  from m [of JNull, THEN conjunct2, THEN conjunct1, rule_format, OF h]
  show ?thesis using t u d a by simp
qed

text \<open>
  \<^bold>\<open>C9\<close> as stated fails for the URL: with the Convert URL unset and a token present,
  the request is sent, to the built-in local address, and no configuration error is
  raised.
\<close>

theorem missing_token_fails_fast_counterexample:
  "NEXT_PUBLIC_CONVERT_API_URL (example_env None (Some ''tok'') upload_success) = None \<and>
   submitConvertImage (example_env None (Some ''tok'') upload_success) (JStr ''http://x/a.png'')
     = (Inr (JObj [(''url'', JStr ''http://y/card.png'')]),
        [Convert \<lparr>convert_url = ''http://localhost:3000/api/v1/growth-card/convert-image'',
                  authorization = ''Bearer tok'',
                  form = [(''image_url'', ''http://x/a.png''),
                          (''entityType'', ''dkn_report''),
                          (''entityId'', ''0''),
                          (''class_id'', ''132''),
                          (''school_id'', ''215''),
                          (''academic_year'', ''2025-2026'')]\<rparr>])"
proof -
  have "convertApi (example_env None (Some ''tok'') upload_success) req = Inr convert_success"
    for req
    by (simp add: example_env_def)
  moreover have "ok convert_success"
    "body convert_success = Inr (JObj [(''url'', JStr ''http://y/card.png'')])"
    by (simp_all add: ok_def convert_success_def)
  moreover have "NEXT_PUBLIC_CONVERT_API_URL (example_env None (Some ''tok'') upload_success) = None"
    by (simp add: example_env_def)
  ultimately show ?thesis
    by (simp add: submitConvertImage_def example_config Let_def)
qed


lemma part_value:
  assumes "d \<noteq> JNull" and "d \<noteq> JUndefined"
  shows "js_or (field_of d ''msg'') (JSON_stringify large d) \<noteq> JUndefined"
    and "js_or (field_of d ''msg'') (JSON_stringify large d) \<noteq> JNull"
    and "ToString large (js_or (field_of d ''msg'') (JSON_stringify large d)) = sub_error large d"
  using assms by (auto simp: js_or_def JSON_stringify_def sub_error_def)

lemma mapE_parts:
  "JNull \<notin> set ds \<Longrightarrow> JUndefined \<notin> set ds \<Longrightarrow>
   mapE (\<lambda>d. bindE (get d ''msg'') (\<lambda>m. Inr (js_or m (JSON_stringify large d)))) ds
     = Inr (map (\<lambda>d. js_or (field_of d ''msg'') (JSON_stringify large d)) ds)"
  by (induction ds) (auto simp: bindE_def get_field)

lemma bindE_Inr: "bindE (Inr v) f = f v"
  by (simp add: bindE_def)

lemma part_text:
  "d \<noteq> JNull \<Longrightarrow> d \<noteq> JUndefined \<Longrightarrow>
   (if js_or (field_of d ''msg'') (JSON_stringify large d) = JUndefined
       \<or> js_or (field_of d ''msg'') (JSON_stringify large d) = JNull
    then [] else ToString large (js_or (field_of d ''msg'') (JSON_stringify large d)))
     = sub_error large d"
  using part_value [of d large] by simp

lemma join_parts:
  assumes "JNull \<notin> set ds" and "JUndefined \<notin> set ds"
  shows "Array_join large sep (map (\<lambda>d. js_or (field_of d ''msg'') (JSON_stringify large d)) ds)
           = intercalate sep (map (sub_error large) ds)"
proof -
  have "map (\<lambda>x. if x = JUndefined \<or> x = JNull then [] else ToString large x)
          (map (\<lambda>d. js_or (field_of d ''msg'') (JSON_stringify large d)) ds)
        = map (sub_error large) ds"
    unfolding map_map o_def
  proof (rule map_cong [OF refl])
    fix d assume "d \<in> set ds"
    with assms have "d \<noteq> JNull" "d \<noteq> JUndefined" by auto
    then show "(if js_or (field_of d ''msg'') (JSON_stringify large d) = JUndefined
         \<or> js_or (field_of d ''msg'') (JSON_stringify large d) = JNull
      then [] else ToString large (js_or (field_of d ''msg'') (JSON_stringify large d)))
      = sub_error large d"
      by (rule part_text)
  qed
  then show ?thesis unfolding Array_join_def by (rule arg_cong)
qed

lemma errorMessage_array:
  assumes "json_or_empty response \<noteq> JNull" and "json_or_empty response \<noteq> JUndefined"
    and "field_of (json_or_empty response) ''detail'' = JArr ds"
    and "JNull \<notin> set ds" and "JUndefined \<notin> set ds"
  shows "errorMessage large response
           = Inr (JStr (intercalate '', '' (map (sub_error large) ds)))"
  using assms
  by (simp add: errorMessage_def Let_def get_field bindE_Inr mapE_parts join_parts)

lemma errorMessage_string:
  assumes "json_or_empty response \<noteq> JNull" and "json_or_empty response \<noteq> JUndefined"
    and "field_of (json_or_empty response) ''detail'' = JStr t" and "t \<noteq> []"
  shows "errorMessage large response = Inr (JStr t)"
  using assms by (simp add: errorMessage_def Let_def get_field bindE_def)

lemma errorMessage_other:
  assumes "json_or_empty response \<noteq> JNull" and "json_or_empty response \<noteq> JUndefined"
    and "truthy (field_of (json_or_empty response) ''detail'')"
    and "\<not> Array_isArray (field_of (json_or_empty response) ''detail'')"
    and "typeof (field_of (json_or_empty response) ''detail'') \<noteq> ''string''"
  shows "errorMessage large response
           = Inr (JStr (JSON_serialize large (field_of (json_or_empty response) ''detail'')))"
  using assms
  by (cases "field_of (json_or_empty response) ''detail''")
     (simp_all add: errorMessage_def Let_def get_field bindE_def JSON_stringify_def)

lemma errorMessage_generic:
  assumes "json_or_empty response \<noteq> JNull" and "json_or_empty response \<noteq> JUndefined"
    and "\<not> truthy (field_of (json_or_empty response) ''detail'')"
  shows "errorMessage large response = Inr (JStr (generic_upload_message large response))"
  using assms
  by (simp add: errorMessage_def Let_def get_field bindE_def generic_upload_message_def)

lemma errorMessage_unparseable:
  assumes "body response = Inl x"
  shows "errorMessage large response = Inr (JStr (generic_upload_message large response))"
  using assms
  by (simp add: errorMessage_def Let_def json_or_empty_def bindE_def generic_upload_message_def)

lemma handleSubmit_upload_failed:
  assumes "selectedImage s = Some selected"
    and "processImageForUpload e s = Inr p"
    and "uploadApi e \<lparr>upload_url = uploadApiUrl e, upload_image = p\<rparr> = Inr response"
    and "\<not> ok response" and "errorMessage (largeNumberText e) response = Inr m"
  shows "handleSubmit e s =
           (s\<lparr>isSubmitting := False, error := Some (ToString (largeNumberText e) m),
              convertResponse := JNull\<rparr>,
            [Upload \<lparr>upload_url = uploadApiUrl e, upload_image = p\<rparr>])"
proof -
  let ?s = "s\<lparr>isSubmitting := True, error := None, convertResponse := JNull\<rparr>"
  from assms(2) have "processImageForUpload e ?s = Inr p"
    by (simp add: processImageForUpload_submitting)
  with assms(3-5) have "submit_try e ?s =
      (Inl (Error (ToString (largeNumberText e) m)), ?s,
       [Upload \<lparr>upload_url = uploadApiUrl e, upload_image = p\<rparr>])"
    by (simp add: submit_try_def Let_def)
  with assms(1) show ?thesis by (simp add: handleSubmit_def)
qed

text \<open>
  \<^bold>\<open>C4\<close> (amended). For a non-2xx upload response whose body is unparseable or parses to
  a JSON value other than \<^verbatim>\<open>null\<close> (a JSON value is never \<^verbatim>\<open>undefined\<close>), the derived
  message is: for a \<^verbatim>\<open>detail\<close> that is an array of sub-errors other than \<^verbatim>\<open>null\<close>,
  the sub-errors each reduced to the text of \<^verbatim>\<open>msg\<close> when that is truthy and otherwise
  written out as JSON, joined by a comma and a space; for a non-empty string
  \<^verbatim>\<open>detail\<close>, that string; for any other truthy \<^verbatim>\<open>detail\<close>, its JSON text; and for
  an absent or falsy \<^verbatim>\<open>detail\<close>, or an unparseable body, the message
  \<^verbatim>\<open>API error: <status> <statusText>\<close>. That message becomes the session's error and
  no Convert request is sent.
\<close>

theorem upload_error_message:
  assumes "json_or_empty response \<noteq> JNull" and "json_or_empty response \<noteq> JUndefined"
  shows
   "(\<forall>ds. field_of (json_or_empty response) ''detail'' = JArr ds
          \<and> JNull \<notin> set ds \<and> JUndefined \<notin> set ds
        \<longrightarrow> errorMessage (largeNumberText e) response
              = Inr (JStr (intercalate '', '' (map (sub_error (largeNumberText e)) ds))))
    \<and> (\<forall>t. field_of (json_or_empty response) ''detail'' = JStr t \<and> t \<noteq> []
        \<longrightarrow> errorMessage (largeNumberText e) response = Inr (JStr t))
    \<and> (truthy (field_of (json_or_empty response) ''detail'')
        \<and> \<not> Array_isArray (field_of (json_or_empty response) ''detail'')
        \<and> typeof (field_of (json_or_empty response) ''detail'') \<noteq> ''string''
        \<longrightarrow> errorMessage (largeNumberText e) response
              = Inr (JStr (JSON_serialize (largeNumberText e)
                             (field_of (json_or_empty response) ''detail''))))
    \<and> (\<not> truthy (field_of (json_or_empty response) ''detail'')
        \<longrightarrow> errorMessage (largeNumberText e) response
              = Inr (JStr (generic_upload_message (largeNumberText e) response)))
    \<and> (\<forall>x. body response = Inl x
        \<longrightarrow> errorMessage (largeNumberText e) response
              = Inr (JStr (generic_upload_message (largeNumberText e) response)))
    \<and> (\<forall>s selected p m.
          selectedImage s = Some selected \<and> processImageForUpload e s = Inr p
          \<and> uploadApi e \<lparr>upload_url = uploadApiUrl e, upload_image = p\<rparr> = Inr response
          \<and> \<not> ok response \<and> errorMessage (largeNumberText e) response = Inr (JStr m)
        \<longrightarrow> error (fst (handleSubmit e s)) = Some m
            \<and> convert_calls (snd (handleSubmit e s)) = [])"
proof (intro conjI allI impI)
  fix ds
  assume "field_of (json_or_empty response) ''detail'' = JArr ds
            \<and> JNull \<notin> set ds \<and> JUndefined \<notin> set ds"
  then show "errorMessage (largeNumberText e) response
      = Inr (JStr (intercalate '', '' (map (sub_error (largeNumberText e)) ds)))"
    using errorMessage_array [OF assms] by blast
next
  fix t
  assume "field_of (json_or_empty response) ''detail'' = JStr t \<and> t \<noteq> []"
  then show "errorMessage (largeNumberText e) response = Inr (JStr t)"
    using errorMessage_string [OF assms] by blast
next
  assume "truthy (field_of (json_or_empty response) ''detail'')
        \<and> \<not> Array_isArray (field_of (json_or_empty response) ''detail'')
        \<and> typeof (field_of (json_or_empty response) ''detail'') \<noteq> ''string''"
  then show "errorMessage (largeNumberText e) response
              = Inr (JStr (JSON_serialize (largeNumberText e)
                             (field_of (json_or_empty response) ''detail'')))"
    using errorMessage_other [OF assms] by blast
next
  assume "\<not> truthy (field_of (json_or_empty response) ''detail'')"
  then show "errorMessage (largeNumberText e) response
               = Inr (JStr (generic_upload_message (largeNumberText e) response))"
    by (rule errorMessage_generic [OF assms])
next
  fix x
  assume "body response = Inl x"
  then show "errorMessage (largeNumberText e) response
               = Inr (JStr (generic_upload_message (largeNumberText e) response))"
    by (rule errorMessage_unparseable)
next
  fix s selected p m
  assume h: "selectedImage s = Some selected \<and> processImageForUpload e s = Inr p
          \<and> uploadApi e \<lparr>upload_url = uploadApiUrl e, upload_image = p\<rparr> = Inr response
          \<and> \<not> ok response \<and> errorMessage (largeNumberText e) response = Inr (JStr m)"
  then have "handleSubmit e s =
           (s\<lparr>isSubmitting := False,
              error := Some (ToString (largeNumberText e) (JStr m)),
              convertResponse := JNull\<rparr>,
            [Upload \<lparr>upload_url = uploadApiUrl e, upload_image = p\<rparr>])"
    using handleSubmit_upload_failed [of s selected e p response "JStr m"] by blast
  then show "error (fst (handleSubmit e s)) = Some m"
    and "convert_calls (snd (handleSubmit e s)) = []"
    by (simp_all add: convert_calls_def)
qed

lemma Number_toString_status:
  "Number_toString large 413 = ''413''" "Number_toString large 500 = ''500''"
  "Number_toString large 502 = ''502''" "Number_toString large 7 = ''7''"
  by (simp_all add: Number_toString_def string_of_nat.simps)

theorem upload_error_message_witness:
  "errorMessage (largeNumberText (example_env None None upload_success))
     \<lparr>status = 413, statusText = ''Payload Too Large'',
      body = Inr (JObj [(''detail'', JArr [JObj [(''msg'', JStr ''too large'')]])])\<rparr>
     = Inr (JStr ''too large'') \<and>
   errorMessage (largeNumberText (example_env None None upload_success))
     \<lparr>status = 413, statusText = ''Payload Too Large'',
      body = Inr (JObj [(''detail'', JArr [JObj [(''msg'', JStr ''too large'')],
                                           JObj [(''msg'', JStr ''bad type'')]])])\<rparr>
     = Inr (JStr ''too large, bad type'') \<and>
   errorMessage (largeNumberText (example_env None None upload_success))
     \<lparr>status = 500, statusText = ''Internal Server Error'',
      body = Inr (JObj [(''detail'', JStr ''disk full'')])\<rparr>
     = Inr (JStr ''disk full'') \<and>
   errorMessage (largeNumberText (example_env None None upload_success))
     \<lparr>status = 500, statusText = ''Internal Server Error'',
      body = Inr (JObj [(''detail'', JNum 7)])\<rparr>
     = Inr (JStr ''7'') \<and>
   errorMessage (largeNumberText (example_env None None upload_success))
     \<lparr>status = 502, statusText = ''Bad Gateway'',
      body = Inl (SyntaxError ''Unexpected token'')\<rparr>
     = Inr (JStr ''API error: 502 Bad Gateway'') \<and>
   errorMessage (largeNumberText (example_env None None upload_success))
     \<lparr>status = 500, statusText = ''Internal Server Error'', body = Inr (JObj [])\<rparr>
     = Inr (JStr ''API error: 500 Internal Server Error'') \<and>
   error (fst (handleSubmit
            (example_env None None
               \<lparr>status = 413, statusText = ''Payload Too Large'',
                body = Inr (JObj [(''detail'', JArr [JObj [(''msg'', JStr ''too large'')]])])\<rparr>)
            selected_session))
     = Some ''too large''"
proof -
  let ?r1 = "\<lparr>status = 413, statusText = ''Payload Too Large'',
              body = Inr (JObj [(''detail'', JArr [JObj [(''msg'', JStr ''too large'')]])])\<rparr>"
  let ?r2 = "\<lparr>status = 413, statusText = ''Payload Too Large'',
              body = Inr (JObj [(''detail'', JArr [JObj [(''msg'', JStr ''too large'')],
                                                   JObj [(''msg'', JStr ''bad type'')]])])\<rparr>"
  let ?r3 = "\<lparr>status = 500, statusText = ''Internal Server Error'',
              body = Inr (JObj [(''detail'', JStr ''disk full'')])\<rparr>"
  let ?r4 = "\<lparr>status = 500, statusText = ''Internal Server Error'',
              body = Inr (JObj [(''detail'', JNum 7)])\<rparr>"
  let ?r5 = "\<lparr>status = 502, statusText = ''Bad Gateway'',
              body = Inl (SyntaxError ''Unexpected token'')\<rparr>"
  let ?r6 = "\<lparr>status = 500, statusText = ''Internal Server Error'', body = Inr (JObj [])\<rparr>"
  let ?e = "example_env None None upload_success"
  have L: "largeNumberText (example_env url token answer) = largeNumberText ?e"
    for url token answer
    by (simp add: example_env_def)
  have a: "errorMessage (largeNumberText ?e) ?r1 = Inr (JStr ''too large'')"
    using upload_error_message [of ?r1 ?e, THEN conjunct1]
    by (simp add: json_or_empty_def sub_error_def)
  have b: "errorMessage (largeNumberText ?e) ?r2 = Inr (JStr ''too large, bad type'')"
    using upload_error_message [of ?r2 ?e, THEN conjunct1]
    by (simp add: json_or_empty_def sub_error_def)
  have c: "errorMessage (largeNumberText ?e) ?r3 = Inr (JStr ''disk full'')"
    using upload_error_message [of ?r3 ?e, THEN conjunct2, THEN conjunct1]
    by (simp add: json_or_empty_def)
  have d: "errorMessage (largeNumberText ?e) ?r4 = Inr (JStr ''7'')"
    using upload_error_message [of ?r4 ?e, THEN conjunct2, THEN conjunct2, THEN conjunct1]
    by (simp add: json_or_empty_def Number_toString_status)
  have e: "errorMessage (largeNumberText ?e) ?r5 = Inr (JStr ''API error: 502 Bad Gateway'')"
    using upload_error_message [of ?r5 ?e, THEN conjunct2, THEN conjunct2, THEN conjunct2,
        THEN conjunct2, THEN conjunct1]
    by (simp add: json_or_empty_def generic_upload_message_def Number_toString_status)
  have g: "errorMessage (largeNumberText ?e) ?r6
             = Inr (JStr ''API error: 500 Internal Server Error'')"
    using upload_error_message [of ?r6 ?e, THEN conjunct2, THEN conjunct2, THEN conjunct2,
        THEN conjunct1]
    by (simp add: json_or_empty_def generic_upload_message_def Number_toString_status)
  have a': "errorMessage (largeNumberText (example_env None None ?r1)) ?r1
              = Inr (JStr ''too large'')"
    using a by (simp only: L [of None None ?r1])
  have f: "error (fst (handleSubmit (example_env None None ?r1) selected_session))
             = Some ''too large''"
    using upload_error_message [of ?r1 "example_env None None ?r1", THEN conjunct2,
        THEN conjunct2, THEN conjunct2, THEN conjunct2, THEN conjunct2, rule_format,
        of selected_session example_file example_file "''too large''"]
      a'
    by (simp add: json_or_empty_def selected_session_fields example_process_selected
          example_uploadApi ok_def)
  from a b c d e g f show ?thesis by (intro conjI)
qed

text \<open>
  \<^bold>\<open>C4\<close> as stated fails for a falsy \<^verbatim>\<open>detail\<close>: the empty string and the number 0
  both give the status-code message, not the string or its JSON text.
\<close>

theorem upload_error_message_counterexample:
  "field_of (json_or_empty \<lparr>status = 500, statusText = ''Internal Server Error'',
                             body = Inr (JObj [(''detail'', JStr [])])\<rparr>) ''detail'' = JStr [] \<and>
   errorMessage (largeNumberText (example_env None None upload_success))
     \<lparr>status = 500, statusText = ''Internal Server Error'',
      body = Inr (JObj [(''detail'', JStr [])])\<rparr>
     = Inr (JStr ''API error: 500 Internal Server Error'') \<and>
   field_of (json_or_empty \<lparr>status = 500, statusText = ''Internal Server Error'',
                             body = Inr (JObj [(''detail'', JNum 0)])\<rparr>) ''detail'' = JNum 0 \<and>
   errorMessage (largeNumberText (example_env None None upload_success))
     \<lparr>status = 500, statusText = ''Internal Server Error'',
      body = Inr (JObj [(''detail'', JNum 0)])\<rparr>
     = Inr (JStr ''API error: 500 Internal Server Error'')"
  by (simp add: errorMessage_generic json_or_empty_def generic_upload_message_def
        Number_toString_status)

text \<open>
  \<^bold>\<open>C8\<close> (amended). From any state, \<open>handleReset\<close> clears the selected image, the
  preview, the edit state (crop back to the default, no completed crop, grayscale 0,
  contrast 100, rotation 0), the upload result, the convert result and the error message,
  and empties the file input; when no submission is in flight and no image element is
  stored, the state reached is the first-load state.
\<close>

theorem reset_clears_session:
  "selectedImage (handleReset s) = None \<and> previewUrl (handleReset s) = None
   \<and> crop (handleReset s) = buildDefaultCrop \<and> completedCrop (handleReset s) = None
   \<and> grayscale (handleReset s) = 0 \<and> contrast (handleReset s) = 100
   \<and> rotation (handleReset s) = 0
   \<and> apiResponse (handleReset s) = JNull \<and> convertResponse (handleReset s) = JNull
   \<and> error (handleReset s) = None
   \<and> (fileInput s \<noteq> None \<longrightarrow> fileInput (handleReset s) = Some [])
   \<and> (\<not> isSubmitting s \<and> imageRef s = None \<and> fileInput s \<noteq> None \<longrightarrow> handleReset s = initial)"
  by (cases "fileInput s")
     (auto simp: handleReset_def resetEditorState_def initial_def Let_def)

lemma failed_session:
  "fst (handleSubmit (example_env None None upload_success) selected_session)
     = selected_session\<lparr>isSubmitting := False,
         error := Some ''Convert API configuration missing. Check environment variables.'',
         convertResponse := JNull,
         apiResponse := JObj [(''status'', JStr ''success''), (''filename'', JStr ''a.png''),
                              (''url'', JStr ''http://x/a.png'')]\<rparr>"
proof -
  have "handleSubmit (example_env None None upload_success) selected_session =
          (selected_session\<lparr>isSubmitting := False,
              error := Some ''Convert API configuration missing. Check environment variables.'',
              convertResponse := JNull,
              apiResponse := JObj [(''status'', JStr ''success''), (''filename'', JStr ''a.png''),
                                   (''url'', JStr ''http://x/a.png'')]\<rparr>,
           [Upload \<lparr>upload_url = uploadApiUrl (example_env None None upload_success),
                     upload_image = example_file\<rparr>])"
    by (rule handleSubmit_no_token [OF selected_session_fields(1) example_process_selected
          example_uploadApi upload_success_fields]) (simp_all add: example_config)
  then show ?thesis by simp
qed

theorem reset_clears_session_witness:
  "error (fst (handleSubmit (example_env None None upload_success) selected_session)) \<noteq> None \<and>
   handleReset (fst (handleSubmit (example_env None None upload_success) selected_session))
     = initial"
proof -
  let ?failed = "fst (handleSubmit (example_env None None upload_success) selected_session)"
  have h: "\<not> isSubmitting ?failed \<and> imageRef ?failed = None \<and> fileInput ?failed \<noteq> None"
    "error ?failed \<noteq> None"
    unfolding failed_session
    by (simp_all add: selected_session_def handleImageSelect_def resetEditorState_def
          initial_def)
  from reset_clears_session [of ?failed] h show ?thesis by blast
qed

text \<open>
  \<^bold>\<open>C8\<close> as stated fails once a preview has loaded: the stored image element survives
  the reset, so the state is not the first-load state.
\<close>

theorem reset_clears_session_counterexample:
  "imageRef (handleReset loaded_session) = Some example_img \<and> imageRef initial = None \<and>
   handleReset loaded_session \<noteq> initial"
proof -
  have a: "imageRef (handleReset loaded_session) = Some example_img"
    by (simp add: handleReset_def resetEditorState_def loaded_session_def onLoad_def
          selected_session_def handleImageSelect_def initial_def Let_def)
  have b: "imageRef initial = None" by (simp add: initial_def)
  from a b have "handleReset loaded_session \<noteq> initial" by auto
  with a b show ?thesis by simp
qed

end
